theory Spec2Isabelle
  imports Complex_Main "HOL-Library.Sublist"
begin

section \<open>Data model of the sandbox console\<close>

text \<open>
  The interfaces at the head of the sandbox view. Every interface is a record; a field
  carries the name of its interface as a prefix, because several interfaces share field
  names (\<open>id\<close>, \<open>environmentId\<close>, \<open>name\<close>, \<open>status\<close>). A union of string literals
  is a datatype, an optional field an \<open>option\<close>. The \<open>number\<close> fields of the entities
  hold counts, limits and codes and are integers here.
\<close>

datatype env_status = Env_Active | Env_Stopped | Env_Archived | Env_Provisioning

datatype key_status = Key_Active | Key_Revoked | Key_Expired

datatype hook_status = Hook_Active | Hook_Paused | Hook_Failed

datatype log_level = INFO | WARN | ERROR | DEBUG

datatype log_source = API | Webhook | System | Auth

datatype http_method = GET | POST | PUT | DELETE | PATCH

text \<open>
  A JavaScript object literal that the program builds for display: the \<open>details\<close> of a
  log entry and the bodies handed to \<open>JSON.stringify\<close>. An object keeps its keys in
  insertion order.
\<close>

datatype json = JString string | JNumber real | JArray "json list" | JObject "(string \<times> json) list"

record EnvConfig =
  rateLimit :: int
  dataRetentionDays :: int
  loggingEnabled :: bool
  publicAccess :: bool

record SandboxEnvironment =
  env_id :: string
  env_name :: string
  env_description :: string
  env_status :: env_status
  apiKeyCount :: int
  webhookCount :: int
  env_createdAt :: string
  env_lastActivity :: string
  env_ownerId :: string
  env_region :: string
  env_config :: EnvConfig

record APIKey =
  key_id :: string
  key_environmentId :: string
  key_name :: string
  key_key :: string
  key_status :: key_status
  key_permissions :: "string list"
  key_createdAt :: string
  key_expiresAt :: "string option"
  key_lastUsed :: string
  key_rateLimitOverride :: "int option"

record WebhookConfig =
  hook_id :: string
  hook_environmentId :: string
  hook_name :: string
  hook_url :: string
  hook_secret :: string
  hook_events :: "string list"
  hook_status :: hook_status
  hook_createdAt :: string
  hook_lastTriggered :: string
  hook_retriesEnabled :: bool
  hook_maxRetries :: int

text \<open>
  The \<open>timestamp\<close> of a log entry is an ISO-8601 string in the source, written by
  \<open>Date.toISOString\<close> and read back with \<open>new Date(s).getTime()\<close> wherever entries are
  ordered. The record holds the instant the string denotes, in milliseconds since the
  epoch: the two conversions are inverse to each other on the instants of a millisecond
  clock, and a string that is no date is outside the model.
\<close>

record LogEntry =
  log_id :: string
  log_environmentId :: string
  log_timestamp :: int
  log_level :: log_level
  log_source :: log_source
  log_message :: string
  log_details :: "json option"
  log_requestId :: "string option"
  log_statusCode :: "int option"
  log_latencyMs :: "int option"

record APIEndpoint =
  ep_id :: string
  ep_method :: http_method
  ep_path :: string
  ep_description :: string
  ep_requestSchema :: "json option"
  ep_responseSchema :: "json option"
  ep_tags :: "string list"
  isAuthenticated :: bool

section \<open>Mock data generators\<close>

text \<open>
  A JavaScript number is a binary64 value, and every arithmetic operation gives the exact
  result rounded to the nearest binary64 value, ties to the even significand. A number is
  modelled by the real it denotes and an operation by the exact operation followed by
  \<open>b64\<close>: with \<open>pow2 k\<close> the \<open>k\<close>-th power of two, a real of magnitude from
  \<open>pow2 E\<close> up to \<open>pow2 (E + 1)\<close> is rounded to a multiple of \<open>pow2 (E - 52)\<close>, and
  a real of magnitude below \<open>pow2 (- 1022)\<close> to a multiple of \<open>pow2 (- 1074)\<close>.
  Overflow is left out: the numbers of the program stay far below \<open>pow2 1024\<close>. Sums,
  differences and products of integers below \<open>pow2 53\<close> are exact in binary64 and are
  written as integer arithmetic.
\<close>

definition pow2 :: "int \<Rightarrow> real" where
  "pow2 k = 2 powr of_int k"

definition round_even :: "real \<Rightarrow> int" where
  "round_even q =
     (let f = \<lfloor>q\<rfloor>; d = q - of_int f
      in if d < 1 / 2 then f else if 1 / 2 < d then f + 1 else if even f then f else f + 1)"

definition ulp_exp :: "real \<Rightarrow> int" where
  "ulp_exp x = max \<lfloor>log 2 \<bar>x\<bar>\<rfloor> (- 1022) - 52"

definition b64 :: "real \<Rightarrow> real" where
  "b64 x =
     (if x = 0 then 0
      else of_int (round_even (x / pow2 (ulp_exp x))) * pow2 (ulp_exp x))"

text \<open>
  A result of \<open>Math.random()\<close>: a binary64 value \<open>r\<close> with \<open>0 \<le> r < 1\<close>. Every function
  that draws random numbers takes its draws as arguments, one per call of \<open>Math.random\<close>,
  so the model says what the code computes from any draws it may get.
\<close>

typedef rnd = "{r::real. 0 \<le> r \<and> r < 1 \<and> b64 r = r}"
  by (rule exI [of _ 0]) (simp add: b64_def)

definition getRandomItem :: "'a list \<Rightarrow> rnd \<Rightarrow> 'a" where
  \<comment> \<open>\<open>arr[Math.floor(Math.random() * arr.length)]\<close>; every array passed by the program is a
      non-empty literal, so the index is in range (\<open>getRandomItem_in_range\<close>).\<close>
  "getRandomItem arr r = arr ! nat \<lfloor>b64 (Rep_rnd r * real (length arr))\<rfloor>"

definition getRandomInt :: "int \<Rightarrow> int \<Rightarrow> rnd \<Rightarrow> int" where
  \<comment> \<open>\<open>Math.floor(Math.random() * (max - min + 1)) + min\<close>\<close>
  "getRandomInt mn mx r = \<lfloor>b64 (Rep_rnd r * of_int (mx - mn + 1))\<rfloor> + mn"

definition getRandomFloat :: "real \<Rightarrow> real \<Rightarrow> rnd \<Rightarrow> real" where
  \<comment> \<open>\<open>parseFloat((Math.random() * (max - min) + min).toFixed(2))\<close>: \<open>toFixed(2)\<close> takes the
      multiple of 0.01 nearest to the exact value of the number, the larger one at a tie,
      and \<open>parseFloat\<close> the binary64 value nearest to that decimal.\<close>
  "getRandomFloat mn mx r =
     b64 (of_int \<lfloor>b64 (b64 (Rep_rnd r * b64 (mx - mn)) + mn) * 100 + 1 / 2\<rfloor> / 100)"

definition mkEnv ::
  "string \<Rightarrow> string \<Rightarrow> string \<Rightarrow> env_status \<Rightarrow> int \<Rightarrow> int \<Rightarrow> string \<Rightarrow> string \<Rightarrow> string \<Rightarrow> string \<Rightarrow>
   int \<Rightarrow> int \<Rightarrow> bool \<Rightarrow> bool \<Rightarrow> SandboxEnvironment" where
  \<comment> \<open>An environment literal, its fields in the order the source writes them.\<close>
  "mkEnv i n d st kc wc ca la ow rg rl dr le pa =
     \<lparr>env_id = i, env_name = n, env_description = d, env_status = st, apiKeyCount = kc,
      webhookCount = wc, env_createdAt = ca, env_lastActivity = la, env_ownerId = ow,
      env_region = rg,
      env_config = \<lparr>rateLimit = rl, dataRetentionDays = dr, loggingEnabled = le, publicAccess = pa\<rparr>\<rparr>"

definition MOCK_ENVIRONMENTS :: "SandboxEnvironment list" where
  "MOCK_ENVIRONMENTS =
    [mkEnv ''env-1'' ''Staging-WebApp-Test''
       ''Environment for testing web application features before production deployment.''
       Env_Active 5 3 ''2024-07-20'' ''2024-08-01T14:30:00Z'' ''user-alpha'' ''us-east-1''
       500 90 True False,
     mkEnv ''env-2'' ''Mobile-iOS-Integration''
       ''Dedicated environment for mobile iOS app backend integrations and QA.''
       Env_Active 3 2 ''2024-07-18'' ''2024-08-01T10:15:00Z'' ''user-beta'' ''eu-west-1''
       1000 180 True False,
     mkEnv ''env-3'' ''Archived-Q2-Tests''
       ''Historical environment for Q2 project testing, now stopped.''
       Env_Stopped 1 0 ''2024-06-30'' ''2024-07-05T09:00:00Z'' ''user-gamma'' ''ap-southeast-2''
       100 30 False True,
     mkEnv ''env-4'' ''Dev-Frontend-Playground''
       ''Frontend development sandbox for rapid prototyping.''
       Env_Active 2 1 ''2024-07-25'' ''2024-08-01T16:00:00Z'' ''user-alpha'' ''us-west-2''
       750 90 True True,
     mkEnv ''env-5'' ''Internal-Tooling-API''
       ''Sandbox for developing internal API services.''
       Env_Provisioning 0 0 ''2024-07-29'' ''2024-07-29T11:00:00Z'' ''user-delta'' ''us-east-1''
       200 60 True False,
     mkEnv ''env-6'' ''POC-Experiment''
       ''Proof-of-concept environment for a new feature idea.''
       Env_Active 1 0 ''2024-07-10'' ''2024-07-28T18:00:00Z'' ''user-epsilon'' ''eu-central-1''
       300 30 True True,
     mkEnv ''env-7'' ''Analytics-Reporting''
       ''Environment for integrating with third-party analytics platforms.''
       Env_Stopped 0 0 ''2024-06-01'' ''2024-06-15T12:00:00Z'' ''user-zeta'' ''us-east-1''
       100 180 False False]"

text \<open>
  What one iteration of the loop of \<open>generateMockLogs\<close> reads from outside: the clock
  (\<open>Date.now()\<close>), the draws of \<open>Math.random\<close> in the order of the calls, and the two
  results of \<open>generateUUID\<close>. A draw that the iteration does not make (the status code
  of an entry that is not an API entry, say) is left unread.
\<close>

record log_seed =
  seed_source :: rnd
  seed_level :: rnd
  seed_now :: int
  seed_days :: rnd
  seed_hours :: rnd
  seed_minutes :: rnd
  seed_requestId :: string
  seed_statusCode :: rnd
  seed_latencyMs :: rnd
  seed_id :: string
  seed_message :: rnd

fun messages :: "log_source \<Rightarrow> string list" where
  "messages API = [''Request received'', ''Data processed'', ''Resource not found'',
                   ''Authentication failed'', ''Rate limit hit'']"
| "messages Webhook = [''Delivery successful'', ''Delivery failed'', ''Retrying delivery'',
                       ''Webhook configured'']"
| "messages System = [''Environment started'', ''Environment stopped'', ''Configuration updated'',
                      ''Provisioning complete'']"
| "messages Auth = [''Login attempt'', ''API key validated'', ''Permission denied'']"

definition mockLogEntry :: "string \<Rightarrow> log_seed \<Rightarrow> LogEntry" where
  \<comment> \<open>The body of the loop of \<open>generateMockLogs\<close>: the entry it pushes.\<close>
  "mockLogEntry envId d =
     (let sources = [API, Webhook, System, Auth];
          levels = [INFO, INFO, INFO, WARN, ERROR, DEBUG];
          source = getRandomItem sources (seed_source d);
          level = getRandomItem levels (seed_level d);
          timestamp = seed_now d - getRandomInt 0 30 (seed_days d) * 24 * 60 * 60 * 1000
                        - getRandomInt 0 23 (seed_hours d) * 60 * 60 * 1000
                        - getRandomInt 0 59 (seed_minutes d) * 60 * 1000;
          requestId = (if source = API then Some (take 10 (seed_requestId d)) else None);
          statusCode =
            (if source = API \<and> level \<noteq> DEBUG
             then Some (getRandomItem [200, 201, 204, 400, 401, 403, 404, 429, 500]
                          (seed_statusCode d))
             else None);
          latencyMs =
            (case statusCode of
               None \<Rightarrow> None
             | Some c \<Rightarrow>
                 if source = API \<and> c \<noteq> 0 \<and> c < 500
                 then Some (getRandomInt 10 1500 (seed_latencyMs d)) else None)
      in \<lparr>log_id = seed_id d,
          log_environmentId = envId,
          log_timestamp = timestamp,
          log_level = level,
          log_source = source,
          log_message = getRandomItem (messages source) (seed_message d),
          log_details =
            (if level = ERROR
             then Some (JObject [(''errorType'', JString ''Timeout''), (''stackTrace'', JString ''...'')])
             else None),
          log_requestId = requestId,
          log_statusCode = statusCode,
          log_latencyMs = latencyMs\<rparr>)"

definition generateMockLogs :: "string \<Rightarrow> int \<Rightarrow> (nat \<Rightarrow> log_seed) \<Rightarrow> LogEntry list" where
  \<comment> \<open>\<open>count\<close> iterations, then \<open>logs.sort\<close> with the comparator
      \<open>getTime(b.timestamp) - getTime(a.timestamp)\<close>: a stable sort, newest first.\<close>
  "generateMockLogs envId count seeds =
     sort_key (\<lambda>entry. - log_timestamp entry)
       (map (\<lambda>i. mockLogEntry envId (seeds i)) [0..<nat count])"

section \<open>The sandbox store\<close>

text \<open>
  The state that \<open>SandboxProvider\<close> holds in its five \<open>useState\<close> cells. Every mutator of
  the provider is a function from the store before the call to the store after it.
\<close>

record store =
  environments :: "SandboxEnvironment list"
  selectedEnvironmentId :: "string option"
  apiKeys :: "APIKey list"
  webhooks :: "WebhookConfig list"
  logs :: "LogEntry list"

definition setSelectedEnvironmentId :: "string option \<Rightarrow> store \<Rightarrow> store" where
  "setSelectedEnvironmentId i s = s\<lparr>selectedEnvironmentId := i\<rparr>"

definition addEnvironment :: "SandboxEnvironment \<Rightarrow> store \<Rightarrow> store" where
  "addEnvironment env s = s\<lparr>environments := environments s @ [env]\<rparr>"

definition updateEnvironment :: "SandboxEnvironment \<Rightarrow> store \<Rightarrow> store" where
  "updateEnvironment updatedEnv s =
     s\<lparr>environments :=
         map (\<lambda>env. if env_id env = env_id updatedEnv then updatedEnv else env) (environments s)\<rparr>"

definition deleteEnvironment :: "string \<Rightarrow> store \<Rightarrow> store" where
  "deleteEnvironment i s =
     s\<lparr>environments := filter (\<lambda>env. env_id env \<noteq> i) (environments s),
       apiKeys := filter (\<lambda>key. key_environmentId key \<noteq> i) (apiKeys s),
       webhooks := filter (\<lambda>webhook. hook_environmentId webhook \<noteq> i) (webhooks s),
       logs := filter (\<lambda>entry. log_environmentId entry \<noteq> i) (logs s),
       selectedEnvironmentId :=
         (if selectedEnvironmentId s = Some i then None else selectedEnvironmentId s)\<rparr>"

definition addApiKey :: "APIKey \<Rightarrow> store \<Rightarrow> store" where
  "addApiKey key s = s\<lparr>apiKeys := apiKeys s @ [key]\<rparr>"

definition updateApiKey :: "APIKey \<Rightarrow> store \<Rightarrow> store" where
  "updateApiKey updatedKey s =
     s\<lparr>apiKeys :=
         map (\<lambda>key. if key_id key = key_id updatedKey then updatedKey else key) (apiKeys s)\<rparr>"

definition deleteApiKey :: "string \<Rightarrow> store \<Rightarrow> store" where
  "deleteApiKey i s = s\<lparr>apiKeys := filter (\<lambda>key. key_id key \<noteq> i) (apiKeys s)\<rparr>"

definition addWebhook :: "WebhookConfig \<Rightarrow> store \<Rightarrow> store" where
  "addWebhook webhook s = s\<lparr>webhooks := webhooks s @ [webhook]\<rparr>"

definition updateWebhook :: "WebhookConfig \<Rightarrow> store \<Rightarrow> store" where
  "updateWebhook updatedWebhook s =
     s\<lparr>webhooks :=
         map (\<lambda>webhook. if hook_id webhook = hook_id updatedWebhook then updatedWebhook else webhook)
           (webhooks s)\<rparr>"

definition deleteWebhook :: "string \<Rightarrow> store \<Rightarrow> store" where
  "deleteWebhook i s = s\<lparr>webhooks := filter (\<lambda>webhook. hook_id webhook \<noteq> i) (webhooks s)\<rparr>"

definition addLog :: "LogEntry \<Rightarrow> store \<Rightarrow> store" where
  "addLog entry s = s\<lparr>logs := entry # logs s\<rparr>"

definition refreshLogs :: "string \<Rightarrow> rnd \<Rightarrow> (nat \<Rightarrow> log_seed) \<Rightarrow> store \<Rightarrow> store" where
  \<comment> \<open>\<open>countDraw\<close> is the draw of \<open>getRandomInt(5, 20)\<close>, \<open>seeds\<close> what the iterations of
      \<open>generateMockLogs\<close> read.\<close>
  "refreshLogs envId countDraw seeds s =
     (let newLogs = generateMockLogs envId (getRandomInt 5 20 countDraw) seeds
      in s\<lparr>logs := newLogs @ filter (\<lambda>entry. log_environmentId entry \<noteq> envId) (logs s)\<rparr>)"

text \<open>
  The store when the provider mounts. \<open>MOCK_API_KEYS\<close> and \<open>MOCK_WEBHOOKS\<close> are drawn at
  random when the module loads and are arguments here; the logs are one generated batch
  of 50 to 150 entries for each mock environment, in the order of the environments, with
  the draws of the batch of an environment found under its id.
\<close>

definition initialLogs :: "(string \<Rightarrow> rnd) \<Rightarrow> (string \<Rightarrow> nat \<Rightarrow> log_seed) \<Rightarrow> LogEntry list" where
  "initialLogs countDraw seeds =
     concat (map (\<lambda>env. generateMockLogs (env_id env)
                           (getRandomInt 50 150 (countDraw (env_id env))) (seeds (env_id env)))
               MOCK_ENVIRONMENTS)"

definition initialStore ::
  "APIKey list \<Rightarrow> WebhookConfig list \<Rightarrow> (string \<Rightarrow> rnd) \<Rightarrow> (string \<Rightarrow> nat \<Rightarrow> log_seed) \<Rightarrow> store" where
  "initialStore MOCK_API_KEYS MOCK_WEBHOOKS countDraw seeds =
     \<lparr>environments = MOCK_ENVIRONMENTS,
      selectedEnvironmentId = None,
      apiKeys = MOCK_API_KEYS,
      webhooks = MOCK_WEBHOOKS,
      logs = initialLogs countDraw seeds\<rparr>"

section \<open>The API request tester\<close>

definition mkEndpoint ::
  "string \<Rightarrow> http_method \<Rightarrow> string \<Rightarrow> string \<Rightarrow> string list \<Rightarrow> bool \<Rightarrow> json option \<Rightarrow> json option \<Rightarrow>
   APIEndpoint" where
  \<comment> \<open>An endpoint literal; the two schemas come last, absent ones as \<open>None\<close>.\<close>
  "mkEndpoint i m p d tg au rq rs =
     \<lparr>ep_id = i, ep_method = m, ep_path = p, ep_description = d, ep_requestSchema = rq,
      ep_responseSchema = rs, ep_tags = tg, isAuthenticated = au\<rparr>"

definition MOCK_API_ENDPOINTS :: "APIEndpoint list" where
  "MOCK_API_ENDPOINTS =
    [mkEndpoint ''ep-1'' GET ''/users/{id}'' ''Retrieve user details'' [''User'', ''Read''] True
       None
       (Some (JObject [(''id'', JString ''string''), (''name'', JString ''string''),
                       (''email'', JString ''string'')])),
     mkEndpoint ''ep-2'' POST ''/users'' ''Create a new user'' [''User'', ''Write''] True
       (Some (JObject [(''name'', JString ''string''), (''email'', JString ''string'')]))
       (Some (JObject [(''id'', JString ''string''), (''name'', JString ''string'')])),
     mkEndpoint ''ep-3'' GET ''/products'' ''List all products'' [''Product'', ''Read''] False
       None
       (Some (JObject [(''items'', JArray [JObject [(''id'', JString ''string''),
                         (''name'', JString ''string''), (''price'', JString ''number'')]])])),
     mkEndpoint ''ep-4'' DELETE ''/products/{id}'' ''Delete a product'' [''Product'', ''Write''] True
       None None,
     mkEndpoint ''ep-5'' POST ''/orders'' ''Place a new order'' [''Order'', ''Write''] True
       (Some (JObject [(''userId'', JString ''string''), (''productId'', JString ''string''),
                       (''quantity'', JString ''number'')]))
       None,
     mkEndpoint ''ep-6'' GET ''/status'' ''Check API health'' [''System''] False
       None
       (Some (JObject [(''status'', JString ''string''), (''uptime'', JString ''string'')]))]"

fun methodName :: "http_method \<Rightarrow> string" where
  "methodName GET = ''GET''"
| "methodName POST = ''POST''"
| "methodName PUT = ''PUT''"
| "methodName DELETE = ''DELETE''"
| "methodName PATCH = ''PATCH''"

fun includes_str :: "string \<Rightarrow> string \<Rightarrow> bool" where
  \<comment> \<open>\<open>s.includes(sub)\<close>: \<open>sub\<close> occurs in \<open>s\<close> as a contiguous run.\<close>
  "includes_str [] sub = (sub = [])"
| "includes_str (c # cs) sub = (prefix sub (c # cs) \<or> includes_str cs sub)"

function decimal :: "nat \<Rightarrow> string" where
  \<comment> \<open>A non-negative integer inside a template literal: its decimal digits.\<close>
  "decimal n =
     (if n < 10 then [''0123456789'' ! n]
      else decimal (n div 10) @ [''0123456789'' ! (n mod 10)])"
  by pat_completeness auto
termination
  by (relation "measure id") auto

text \<open>
  The cells of the component that \<open>handleSendRequest\<close> writes. \<open>response\<close> holds the text
  \<open>JSON.stringify(body, null, 2)\<close> in the source; the model keeps the body itself and
  \<open>None\<close> for the empty text, so that the message and the details of a body can be read.
\<close>

record tester_state =
  response :: "json option"
  isLoading :: bool
  statusCode :: "int option"
  responseTime :: "real option"
  error :: "string option"

text \<open>
  What one call of \<open>handleSendRequest\<close> reads from outside: \<open>performance.now()\<close> on entry,
  inside a branch that returns early, and in the \<open>finally\<close> block; the draw of the
  latency, the draw of the number of listed items, the draw of the value of each listed
  item, and the result of \<open>generateUUID\<close>. The readings of the clock are numbers, and
  the elapsed time is their difference rounded to binary64.
\<close>

record request_env =
  clk_start :: real
  clk_branch :: real
  clk_finally :: real
  rnd_latency :: rnd
  rnd_count :: rnd
  rnd_values :: "nat \<Rightarrow> rnd"
  new_uuid :: string

text \<open>How a \<open>try\<close> block ends: it runs to its end or to a \<open>return\<close>, or it throws.\<close>

datatype completion = Returned tester_state | Threw string tester_state

definition permissionCheckFails :: "http_method \<Rightarrow> string list \<Rightarrow> bool" where
  \<comment> \<open>The condition under the comment "Simulate permission check (simplified)", with the
      grouping JavaScript gives it: \<open>&&\<close> binds tighter than \<open>||\<close>.\<close>
  "permissionCheckFails method permissions =
     ((''admin'' \<notin> set permissions \<and>
        ((method = POST \<or> method = PUT \<or> method = DELETE \<or> method = PATCH) \<and>
         ''write:data'' \<notin> set permissions))
      \<or> (method = GET \<and> ''read:data'' \<notin> set permissions))"

definition mockSuccess :: "http_method \<Rightarrow> string \<Rightarrow> request_env \<Rightarrow> json \<times> int" where
  \<comment> \<open>\<open>mockResponse\<close> and \<open>mockStatusCode\<close> after the chain "Simulate different responses
      based on method".\<close>
  "mockSuccess method path env =
     (if method = GET then
        (if includes_str path ''{id}''
         then (JObject [(''id'', JString ''some-id-123''), (''name'', JString ''Mock Item''),
                        (''status'', JString ''active''), (''data'', JString ''example'')], 200)
         else (JObject [(''items'',
                  JArray (map (\<lambda>i. JObject [(''id'', JString (''item-'' @ decimal i)),
                                 (''name'', JString (''Generated Item '' @ decimal (i + 1))),
                                 (''value'', JNumber (getRandomFloat 10 1000 (rnd_values env i)))])
                            [0..<nat (getRandomInt 3 10 (rnd_count env))]))], 200))
      else if method = POST then
        (JObject [(''message'', JString ''Resource created successfully''),
                  (''id'', JString (new_uuid env)), (''status'', JString ''pending'')], 201)
      else if method = PUT \<or> method = PATCH then
        (JObject [(''message'', JString ''Resource updated successfully'')], 200)
      else if method = DELETE then
        (JObject [(''message'', JString ''Resource deleted successfully'')], 204)
      else (JObject [], 200))"

definition tryBlock ::
  "store \<Rightarrow> string \<Rightarrow> http_method \<Rightarrow> string \<Rightarrow> request_env \<Rightarrow> tester_state \<Rightarrow> completion" where
  \<comment> \<open>The \<open>try\<close> block after the awaited delay; \<open>s\<close> is the store the component reads
      \<open>apiKeys\<close> from. No statement of the block throws on values of the declared types,
      so every path ends in \<open>Returned\<close>.\<close>
  "tryBlock s selectedAPIKeyId method path env t =
     (let elapsed = b64 (clk_branch env - clk_start env);
          succeed =
            (let (mockResponse, mockStatusCode) = mockSuccess method path env
             in Returned (t\<lparr>statusCode := Some mockStatusCode, response := Some mockResponse\<rparr>))
      in
      case find (\<lambda>ep. ep_path ep = path) MOCK_API_ENDPOINTS of
        None \<Rightarrow>
          Returned (t\<lparr>statusCode := Some 404, responseTime := Some elapsed,
            response := Some (JObject [(''message'', JString ''Mock endpoint not found''),
              (''details'', JString (''Path: '' @ path @ '', Method: '' @ methodName method))]),
            error := Some ''Mock endpoint not found.''\<rparr>)
      | Some mockEndpoint \<Rightarrow>
          if method \<noteq> ep_method mockEndpoint then
            Returned (t\<lparr>statusCode := Some 405, responseTime := Some elapsed,
              response := Some (JObject [(''message'', JString ''Method Not Allowed''),
                (''details'', JString (''Expected '' @ methodName (ep_method mockEndpoint)
                                        @ '', got '' @ methodName method))]),
              error := Some ''Method Not Allowed.''\<rparr>)
          else if isAuthenticated mockEndpoint \<and> selectedAPIKeyId \<noteq> [] then
            (let unauthorized =
                   Returned (t\<lparr>statusCode := Some 401, responseTime := Some elapsed,
                     response := Some (JObject [(''message'', JString ''Unauthorized''),
                       (''details'', JString ''Invalid or revoked API Key'')]),
                     error := Some ''Unauthorized: Invalid API Key.''\<rparr>)
             in
             case find (\<lambda>k. key_id k = selectedAPIKeyId) (apiKeys s) of
               None \<Rightarrow> unauthorized
             | Some usedKey \<Rightarrow>
                 if key_status usedKey \<noteq> Key_Active then unauthorized
                 else if permissionCheckFails method (key_permissions usedKey) then
                   Returned (t\<lparr>statusCode := Some 403, responseTime := Some elapsed,
                     response := Some (JObject [(''message'', JString ''Forbidden''),
                       (''details'', JString ''API Key does not have required permissions'')]),
                     error := Some ''Forbidden: Insufficient permissions.''\<rparr>)
                 else succeed)
          else if isAuthenticated mockEndpoint \<and> selectedAPIKeyId = [] then
            Returned (t\<lparr>statusCode := Some 401, responseTime := Some elapsed,
              response := Some (JObject [(''message'', JString ''Unauthorized''),
                (''details'', JString ''API Key required'')]),
              error := Some ''Unauthorized: API Key required.''\<rparr>)
          else succeed)"

definition catchBlock :: "string \<Rightarrow> tester_state \<Rightarrow> tester_state" where
  "catchBlock msg t =
     t\<lparr>error := Some (''Request failed: '' @ msg), statusCode := Some 500,
       response := Some (JObject [(''error'', JString msg)])\<rparr>"

definition finallyBlock :: "request_env \<Rightarrow> tester_state \<Rightarrow> tester_state" where
  "finallyBlock env t =
     t\<lparr>responseTime := Some (b64 (clk_finally env - clk_start env)), isLoading := False\<rparr>"

definition afterTry :: "completion \<Rightarrow> tester_state" where
  \<comment> \<open>A thrown error runs the \<open>catch\<close> block on the cells as the \<open>try\<close> block left them.\<close>
  "afterTry c = (case c of Returned t \<Rightarrow> t | Threw msg t \<Rightarrow> catchBlock msg t)"

definition handleSendRequest ::
  "store \<Rightarrow> string \<Rightarrow> http_method \<Rightarrow> string \<Rightarrow> request_env \<Rightarrow> int \<times> tester_state" where
  \<comment> \<open>The delay handed to \<open>setTimeout\<close>, in milliseconds, and the cells when the call is
      over. The five statements before the \<open>try\<close> overwrite every cell. An empty
      \<open>selectedAPIKeyId\<close> is the falsy value: no key is selected.\<close>
  "handleSendRequest s selectedAPIKeyId method path env =
     (let cleared = \<lparr>response = None, isLoading = True, statusCode = None, responseTime = None,
                     error = None\<rparr>;
          delay = getRandomInt 100 1500 (rnd_latency env)
      in (delay,
          finallyBlock env (afterTry (tryBlock s selectedAPIKeyId method path env cleared))))"

section \<open>The log viewer\<close>

fun levelName :: "log_level \<Rightarrow> string" where
  "levelName INFO = ''INFO''"
| "levelName WARN = ''WARN''"
| "levelName ERROR = ''ERROR''"
| "levelName DEBUG = ''DEBUG''"

fun sourceName :: "log_source \<Rightarrow> string" where
  "sourceName API = ''API''"
| "sourceName Webhook = ''Webhook''"
| "sourceName System = ''System''"
| "sourceName Auth = ''Auth''"

definition filteredLogs ::
  "store \<Rightarrow> string \<Rightarrow> string \<Rightarrow> string \<Rightarrow> string \<Rightarrow> (string \<Rightarrow> LogEntry \<Rightarrow> bool) \<Rightarrow> nat \<Rightarrow>
   LogEntry list" where
  \<comment> \<open>The list \<open>EnvironmentLogs\<close> renders from the \<open>logs\<close> of the store \<open>s\<close>.
      \<open>textMatch term entry\<close> stands for the search of a non-empty term in the lower-cased
      message, request id and serialised details.\<close>
  "filteredLogs s environmentId filterLevel filterSource searchTerm textMatch displayCount =
     (let envLogs = filter (\<lambda>entry. log_environmentId entry = environmentId) (logs s)
      in take displayCount
           (filter (\<lambda>entry.
               let levelMatch = (filterLevel = ''ALL'' \<or> levelName (log_level entry) = filterLevel);
                   sourceMatch = (filterSource = ''ALL'' \<or> sourceName (log_source entry) = filterSource);
                   searchMatch = (searchTerm = [] \<or> textMatch searchTerm entry)
               in levelMatch \<and> sourceMatch \<and> searchMatch)
             envLogs))"

section \<open>Properties of a store\<close>

text \<open>
  A list of log entries is newest first when no entry is followed by a later one; a store
  keeps an environment newest first when the entries it filters out for the environment
  are.
\<close>

definition newestFirst :: "LogEntry list \<Rightarrow> bool" where
  "newestFirst xs = sorted_wrt (\<lambda>a b. log_timestamp b \<le> log_timestamp a) xs"

definition logsNewestFirst :: "store \<Rightarrow> string \<Rightarrow> bool" where
  "logsNewestFirst s envId =
     newestFirst (filter (\<lambda>entry. log_environmentId entry = envId) (logs s))"

text \<open>
  The stores the console can be in: the store at mount, and the store after any call of
  a mutator that the provider hands out through its context.
\<close>

inductive reachable :: "store \<Rightarrow> bool" where
  r_initial: "reachable (initialStore ks hs countDraw seeds)"
| r_setSelectedEnvironmentId: "reachable s \<Longrightarrow> reachable (setSelectedEnvironmentId i s)"
| r_addEnvironment: "reachable s \<Longrightarrow> reachable (addEnvironment env s)"
| r_updateEnvironment: "reachable s \<Longrightarrow> reachable (updateEnvironment env s)"
| r_deleteEnvironment: "reachable s \<Longrightarrow> reachable (deleteEnvironment j s)"
| r_addApiKey: "reachable s \<Longrightarrow> reachable (addApiKey key s)"
| r_updateApiKey: "reachable s \<Longrightarrow> reachable (updateApiKey key s)"
| r_deleteApiKey: "reachable s \<Longrightarrow> reachable (deleteApiKey j s)"
| r_addWebhook: "reachable s \<Longrightarrow> reachable (addWebhook webhook s)"
| r_updateWebhook: "reachable s \<Longrightarrow> reachable (updateWebhook webhook s)"
| r_deleteWebhook: "reachable s \<Longrightarrow> reachable (deleteWebhook j s)"
| r_addLog: "reachable s \<Longrightarrow> reachable (addLog entry s)"
| r_refreshLogs: "reachable s \<Longrightarrow> reachable (refreshLogs envId countDraw' seeds' s)"

text \<open>
  The counts an environment record carries agree with the store when each is the number
  of API keys, or webhooks, that name the environment.
\<close>

definition keyCountsAgree :: "store \<Rightarrow> bool" where
  "keyCountsAgree s =
     list_all (\<lambda>env. apiKeyCount env
                 = int (length (filter (\<lambda>key. key_environmentId key = env_id env) (apiKeys s))))
       (environments s)"

definition webhookCountsAgree :: "store \<Rightarrow> bool" where
  "webhookCountsAgree s =
     list_all (\<lambda>env. webhookCount env
                 = int (length (filter (\<lambda>webhook. hook_environmentId webhook = env_id env)
                                  (webhooks s))))
       (environments s)"

section \<open>Example data\<close>

text \<open>
  Entities and inputs for the concrete instances of the theorems below: two keys and a
  webhook for each of the first two mock environments, three log entries, and the
  readings and draws of one request.
\<close>

definition exampleKey :: "string \<Rightarrow> string \<Rightarrow> key_status \<Rightarrow> string list \<Rightarrow> APIKey" where
  "exampleKey i e st ps =
     \<lparr>key_id = i, key_environmentId = e, key_name = ''Key'', key_key = ''sk_test_0000...0000'',
      key_status = st, key_permissions = ps, key_createdAt = ''2024-07-01'', key_expiresAt = None,
      key_lastUsed = ''2024-07-20'', key_rateLimitOverride = None\<rparr>"

definition exampleHook :: "string \<Rightarrow> string \<Rightarrow> WebhookConfig" where
  "exampleHook i e =
     \<lparr>hook_id = i, hook_environmentId = e, hook_name = ''Hook'',
      hook_url = ''https://example.com/webhook/listener/0'', hook_secret = ''s'',
      hook_events = [''data.created''], hook_status = Hook_Active, hook_createdAt = ''2024-07-01'',
      hook_lastTriggered = ''Never'', hook_retriesEnabled = True, hook_maxRetries = 3\<rparr>"

definition exampleLog :: "string \<Rightarrow> string \<Rightarrow> int \<Rightarrow> LogEntry" where
  "exampleLog i e ts =
     \<lparr>log_id = i, log_environmentId = e, log_timestamp = ts, log_level = INFO, log_source = System,
      log_message = ''Environment started'', log_details = None, log_requestId = None,
      log_statusCode = None, log_latencyMs = None\<rparr>"

definition exampleStore :: store where
  "exampleStore =
     \<lparr>environments = MOCK_ENVIRONMENTS,
      selectedEnvironmentId = Some ''env-1'',
      apiKeys = [exampleKey ''k1'' ''env-1'' Key_Active [''admin''],
                 exampleKey ''k2'' ''env-2'' Key_Revoked [''read:data'', ''write:data''],
                 exampleKey ''k3'' ''env-1'' Key_Active [''read:data''],
                 exampleKey ''k4'' ''env-2'' Key_Active [''write:data'']],
      webhooks = [exampleHook ''h1'' ''env-1'', exampleHook ''h2'' ''env-2''],
      logs = [exampleLog ''l1'' ''env-1'' 3000, exampleLog ''l2'' ''env-2'' 2500,
              exampleLog ''l3'' ''env-1'' 2000]\<rparr>"

definition exampleEnv :: request_env where
  "exampleEnv =
     \<lparr>clk_start = 1000, clk_branch = 1800, clk_finally = 1801, rnd_latency = Abs_rnd (1 / 2),
      rnd_count = Abs_rnd (1 / 4), rnd_values = (\<lambda>i. Abs_rnd (1 / 8)), new_uuid = ''k3j5h2l9x0q''\<rparr>"


definition exampleSeed :: "nat \<Rightarrow> log_seed" where
  "exampleSeed i =
     \<lparr>seed_source = Abs_rnd 0, seed_level = Abs_rnd (1 / 2), seed_now = 1722500000000 + int i,
      seed_days = Abs_rnd (1 / 4), seed_hours = Abs_rnd (1 / 2), seed_minutes = Abs_rnd 0,
      seed_requestId = ''q7w8e9r0t1y2u3'', seed_statusCode = Abs_rnd 0,
      seed_latencyMs = Abs_rnd (1 / 2), seed_id = ''n4m5b6v7c8x9z0'', seed_message = Abs_rnd 0\<rparr>"

text \<open>
  A store whose counts agree: the fourth mock environment, which counts two API keys and
  one webhook, with two keys and one webhook.
\<close>

definition agreeingStore :: store where
  "agreeingStore =
     \<lparr>environments = [MOCK_ENVIRONMENTS ! 3],
      selectedEnvironmentId = None,
      apiKeys = [exampleKey ''k5'' ''env-4'' Key_Active [''read:data''],
                 exampleKey ''k6'' ''env-4'' Key_Active [''admin'']],
      webhooks = [exampleHook ''h3'' ''env-4''],
      logs = []\<rparr>"

section \<open>Deleting an environment\<close>

text \<open>
  C1. Deleting an environment \<open>E\<close> of the store removes it from the environments, removes
  exactly the API keys, webhooks and log entries whose \<open>environmentId\<close> is the id of \<open>E\<close>
  (as many keys and webhooks go as \<open>E\<close> owned), leaves what every other environment id
  reads from the four collections as it was, and clears the selected environment if it
  was \<open>E\<close>, leaving it alone otherwise.
\<close>

theorem deleteEnvironment_cascade:
  assumes "E \<in> set (environments s)"
  shows "E \<notin> set (environments (deleteEnvironment (env_id E) s))
    \<and> set (environments (deleteEnvironment (env_id E) s))
        = {e \<in> set (environments s). env_id e \<noteq> env_id E}
    \<and> set (apiKeys (deleteEnvironment (env_id E) s))
        = set (apiKeys s) - {k. key_environmentId k = env_id E}
    \<and> set (webhooks (deleteEnvironment (env_id E) s))
        = set (webhooks s) - {w. hook_environmentId w = env_id E}
    \<and> set (logs (deleteEnvironment (env_id E) s))
        = set (logs s) - {l. log_environmentId l = env_id E}
    \<and> length (apiKeys s) = length (apiKeys (deleteEnvironment (env_id E) s))
        + length (filter (\<lambda>k. key_environmentId k = env_id E) (apiKeys s))
    \<and> length (webhooks s) = length (webhooks (deleteEnvironment (env_id E) s))
        + length (filter (\<lambda>w. hook_environmentId w = env_id E) (webhooks s))
    \<and> (\<forall>j. j \<noteq> env_id E \<longrightarrow>
          filter (\<lambda>e. env_id e = j) (environments (deleteEnvironment (env_id E) s))
            = filter (\<lambda>e. env_id e = j) (environments s)
        \<and> filter (\<lambda>k. key_environmentId k = j) (apiKeys (deleteEnvironment (env_id E) s))
            = filter (\<lambda>k. key_environmentId k = j) (apiKeys s)
        \<and> filter (\<lambda>w. hook_environmentId w = j) (webhooks (deleteEnvironment (env_id E) s))
            = filter (\<lambda>w. hook_environmentId w = j) (webhooks s)
        \<and> filter (\<lambda>l. log_environmentId l = j) (logs (deleteEnvironment (env_id E) s))
            = filter (\<lambda>l. log_environmentId l = j) (logs s))
    \<and> selectedEnvironmentId (deleteEnvironment (env_id E) s)
        = (if selectedEnvironmentId s = Some (env_id E) then None else selectedEnvironmentId s)"
proof -
  have len: "length xs = length (filter (\<lambda>x. \<not> P x) xs) + length (filter P xs)" for P and xs :: "'a list"
    using sum_length_filter_compl [of P xs] by simp
  have keep: "j \<noteq> i \<Longrightarrow> filter (\<lambda>x. f x \<noteq> i \<and> f x = j) xs = filter (\<lambda>x. f x = j) xs"
    for f :: "'a \<Rightarrow> string" and i j xs
    by (rule filter_cong) auto
  show ?thesis
    unfolding deleteEnvironment_def
    by (auto simp: keep len [symmetric])
qed

text \<open>The first mock environment, deleted from the example store.\<close>

theorem deleteEnvironment_cascade_witness:
  "hd MOCK_ENVIRONMENTS \<in> set (environments exampleStore)
   \<and> map env_id (environments (deleteEnvironment ''env-1'' exampleStore))
       = [''env-2'', ''env-3'', ''env-4'', ''env-5'', ''env-6'', ''env-7'']
   \<and> map key_id (apiKeys (deleteEnvironment ''env-1'' exampleStore)) = [''k2'', ''k4'']
   \<and> map hook_id (webhooks (deleteEnvironment ''env-1'' exampleStore)) = [''h2'']
   \<and> map log_id (logs (deleteEnvironment ''env-1'' exampleStore)) = [''l2'']
   \<and> selectedEnvironmentId (deleteEnvironment ''env-1'' exampleStore) = None"
  using deleteEnvironment_cascade [of "hd MOCK_ENVIRONMENTS" exampleStore]
  by (simp add: deleteEnvironment_def exampleStore_def MOCK_ENVIRONMENTS_def mkEnv_def
      exampleKey_def exampleHook_def exampleLog_def)

section \<open>Binary64 arithmetic and random draws\<close>

subsection \<open>Powers of two\<close>

lemma pow2_pos [simp]: "0 < pow2 k"
  by (simp add: pow2_def)

lemma pow2_nonneg [simp]: "0 \<le> pow2 k"
  by (simp add: pow2_def)

lemma pow2_neq0 [simp]: "pow2 k \<noteq> 0"
  using pow2_pos [of k] by linarith

lemma pow2_0 [simp]: "pow2 0 = 1"
  by (simp add: pow2_def)

lemma pow2_add: "pow2 (a + b) = pow2 a * pow2 b"
  by (simp add: pow2_def powr_add)

lemma pow2_diff: "pow2 (a - b) = pow2 a / pow2 b"
  by (simp add: pow2_def powr_diff)

lemma pow2_Suc: "pow2 (k + 1) = 2 * pow2 k"
  by (simp add: pow2_def powr_add)

lemma pow2_le [simp]: "pow2 a \<le> pow2 b \<longleftrightarrow> a \<le> b"
  by (simp add: pow2_def)

lemma pow2_less [simp]: "pow2 a < pow2 b \<longleftrightarrow> a < b"
  by (simp add: pow2_def)

lemma pow2_nat: "0 \<le> k \<Longrightarrow> pow2 k = of_int (2 ^ nat k)"
  by (simp add: pow2_def powr_real_of_int)

lemma pow2_numeral: "pow2 (numeral n) = 2 ^ numeral n" "pow2 (- numeral n) = 1 / 2 ^ numeral n"
  by (simp_all add: pow2_def powr_neg_numeral)

lemma pow2_cancel: "x / pow2 k * pow2 k = x"
  by simp

lemma floor_log2_bounds:
  assumes "0 < x"
  shows "pow2 \<lfloor>log 2 x\<rfloor> \<le> x" and "x < pow2 (\<lfloor>log 2 x\<rfloor> + 1)"
  using floor_log_eq_powr_iff [of x 2 "\<lfloor>log 2 x\<rfloor>"] assms by (simp_all add: pow2_def)

lemma floor_log2_eq: "pow2 k \<le> x \<Longrightarrow> x < pow2 (k + 1) \<Longrightarrow> \<lfloor>log 2 x\<rfloor> = k"
proof -
  assume a: "pow2 k \<le> x" "x < pow2 (k + 1)"
  have "0 < x" using a(1) pow2_pos [of k] by linarith
  then show ?thesis using floor_log_eq_powr_iff [of x 2 k] a by (simp add: pow2_def)
qed

lemma floor_log2_ge: "pow2 k \<le> x \<Longrightarrow> k \<le> \<lfloor>log 2 x\<rfloor>"
proof -
  assume a: "pow2 k \<le> x"
  have "0 < x" using a pow2_pos [of k] by linarith
  then show ?thesis using a by (simp add: le_floor_iff le_log_iff pow2_def)
qed

lemma floor_log2_le: "0 < x \<Longrightarrow> x \<le> pow2 k \<Longrightarrow> \<lfloor>log 2 x\<rfloor> \<le> k"
proof -
  assume x: "0 < x" and le: "x \<le> pow2 k"
  have "log 2 x \<le> of_int k" using x le by (simp add: log_le_iff pow2_def)
  then show ?thesis by (simp add: floor_le_iff)
qed

subsection \<open>Rounding to an integer, ties to even\<close>

lemma round_even_of_int [simp]: "round_even (of_int z) = z"
  by (simp add: round_even_def)

lemma round_even_cases: "round_even q = \<lfloor>q\<rfloor> \<or> round_even q = \<lfloor>q\<rfloor> + 1"
  by (simp add: round_even_def Let_def)

lemma round_even_near:
  "q - 1 / 2 \<le> of_int (round_even q)" "of_int (round_even q) \<le> q + 1 / 2"
  unfolding round_even_def Let_def by (auto; linarith)+

lemma round_even_mono: "q \<le> q' \<Longrightarrow> round_even q \<le> round_even q'"
proof -
  assume le: "q \<le> q'"
  then have fl: "\<lfloor>q\<rfloor> \<le> \<lfloor>q'\<rfloor>" by (rule floor_mono)
  show ?thesis
  proof (cases "\<lfloor>q\<rfloor> = \<lfloor>q'\<rfloor>")
    case True
    with le show ?thesis by (auto simp: round_even_def Let_def)
  next
    case False
    with fl have "\<lfloor>q\<rfloor> + 1 \<le> \<lfloor>q'\<rfloor>" by simp
    with round_even_cases [of q] round_even_cases [of q'] show ?thesis by auto
  qed
qed

lemma round_even_ge_int: "of_int k \<le> q \<Longrightarrow> k \<le> round_even q"
  using round_even_mono [of "of_int k" q] by simp

lemma round_even_le_int: "q \<le> of_int k \<Longrightarrow> round_even q \<le> k"
  using round_even_mono [of q "of_int k"] by simp

lemma round_even_below_half: "q < of_int k - 1 / 2 \<Longrightarrow> round_even q \<le> k - 1"
proof -
  assume "q < of_int k - 1 / 2"
  with round_even_near(2) [of q] have "real_of_int (round_even q) < of_int k" by linarith
  then show ?thesis by simp
qed

subsection \<open>Rounding to binary64\<close>

lemma b64_0 [simp]: "b64 0 = 0"
  by (simp add: b64_def)

lemma b64_pos_unfold: "0 < x \<Longrightarrow> b64 x = of_int (round_even (x / pow2 (ulp_exp x))) * pow2 (ulp_exp x)"
  by (simp add: b64_def)

lemma ulp_exp_pos: "0 < x \<Longrightarrow> ulp_exp x = max \<lfloor>log 2 x\<rfloor> (- 1022) - 52"
  by (simp add: ulp_exp_def)

lemma ulp_exp_normal: "pow2 E \<le> x \<Longrightarrow> x < pow2 (E + 1) \<Longrightarrow> - 1022 \<le> E \<Longrightarrow> ulp_exp x = E - 52"
proof -
  assume a: "pow2 E \<le> x" "x < pow2 (E + 1)" and E: "- 1022 \<le> E"
  have x: "0 < x" using a(1) pow2_pos [of E] by linarith
  have "\<lfloor>log 2 x\<rfloor> = E" using a by (rule floor_log2_eq)
  with E show ?thesis by (simp add: ulp_exp_pos [OF x])
qed

lemma b64_nonneg: "0 \<le> x \<Longrightarrow> 0 \<le> b64 x"
proof (cases "x = 0")
  case True then show ?thesis by simp
next
  case False
  assume "0 \<le> x"
  with False have x: "0 < x" by simp
  then have "real_of_int 0 \<le> x / pow2 (ulp_exp x)" by simp
  then have "0 \<le> round_even (x / pow2 (ulp_exp x))" by (rule round_even_ge_int)
  then show ?thesis by (simp add: b64_pos_unfold [OF x])
qed

lemma b64_upper:
  assumes x: "0 < x" and le: "x \<le> pow2 K" and K: "- 1022 \<le> K"
  shows "b64 x \<le> pow2 K"
proof -
  let ?e = "ulp_exp x"
  have "\<lfloor>log 2 x\<rfloor> \<le> K" using x le by (rule floor_log2_le)
  with K have e: "?e \<le> K - 52" by (simp add: ulp_exp_pos [OF x])
  then have nn: "0 \<le> K - ?e" by simp
  have "x / pow2 ?e \<le> pow2 K / pow2 ?e"
    using le by (simp add: divide_right_mono)
  also have "\<dots> = pow2 (K - ?e)" by (simp add: pow2_diff)
  also have "\<dots> = of_int (2 ^ nat (K - ?e))" using nn by (rule pow2_nat)
  finally have "round_even (x / pow2 ?e) \<le> 2 ^ nat (K - ?e)"
    by (rule round_even_le_int)
  then have "real_of_int (round_even (x / pow2 ?e)) \<le> real_of_int (2 ^ nat (K - ?e))"
    by (simp only: of_int_le_iff)
  also have "\<dots> = pow2 (K - ?e)" using nn by (rule pow2_nat [symmetric])
  finally have "real_of_int (round_even (x / pow2 ?e)) * pow2 ?e \<le> pow2 (K - ?e) * pow2 ?e"
    by (rule mult_right_mono) simp
  also have "\<dots> = pow2 K" by (simp add: pow2_add [symmetric])
  finally show ?thesis by (simp add: b64_pos_unfold [OF x])
qed

lemma b64_lower:
  assumes le: "pow2 K \<le> x" and K: "- 1022 \<le> K"
  shows "pow2 K \<le> b64 x"
proof -
  let ?E = "\<lfloor>log 2 x\<rfloor>"
  let ?e = "ulp_exp x"
  have x: "0 < x" using le pow2_pos [of K] by linarith
  have KE: "K \<le> ?E" using le by (rule floor_log2_ge)
  with K have e: "?e = ?E - 52" by (simp add: ulp_exp_pos [OF x])
  have nn: "(0::int) \<le> 52" by simp
  have "pow2 ?E \<le> x" using x by (rule floor_log2_bounds)
  then have "pow2 ?E / pow2 ?e \<le> x / pow2 ?e"
    by (simp add: divide_right_mono)
  moreover have "pow2 ?E / pow2 ?e = pow2 52"
    unfolding e pow2_diff [symmetric] by simp
  moreover have "pow2 52 = real_of_int (2 ^ nat 52)" using nn by (rule pow2_nat)
  ultimately have "real_of_int (2 ^ nat 52) \<le> x / pow2 ?e" by (simp only:)
  then have "2 ^ nat 52 \<le> round_even (x / pow2 ?e)" by (rule round_even_ge_int)
  then have "real_of_int (2 ^ nat 52) \<le> real_of_int (round_even (x / pow2 ?e))"
    by (simp only: of_int_le_iff)
  then have "pow2 52 \<le> real_of_int (round_even (x / pow2 ?e))"
    using pow2_nat [OF nn] by (simp only:)
  then have "pow2 52 * pow2 ?e \<le> real_of_int (round_even (x / pow2 ?e)) * pow2 ?e"
    by (rule mult_right_mono) simp
  moreover have "pow2 52 * pow2 ?e = pow2 ?E"
    unfolding e pow2_add [symmetric] by simp
  ultimately have "pow2 ?E \<le> b64 x" by (simp add: b64_pos_unfold [OF x])
  moreover have "pow2 K \<le> pow2 ?E" using KE by simp
  ultimately show ?thesis by linarith
qed

lemma ulp_exp_mono: "0 < x \<Longrightarrow> x \<le> y \<Longrightarrow> ulp_exp x \<le> ulp_exp y"
proof -
  assume x: "0 < x" and le: "x \<le> y"
  then have y: "0 < y" by simp
  from x le have "log 2 x \<le> log 2 y" by simp
  then have "\<lfloor>log 2 x\<rfloor> \<le> \<lfloor>log 2 y\<rfloor>" by (rule floor_mono)
  then show ?thesis by (simp add: ulp_exp_pos [OF x] ulp_exp_pos [OF y])
qed

lemma b64_mono:
  assumes "0 \<le> x" and "x \<le> y"
  shows "b64 x \<le> b64 y"
proof (cases "x = 0")
  case True
  with assms show ?thesis by (simp add: b64_nonneg)
next
  case False
  with assms have x: "0 < x" and y: "0 < y" by simp_all
  have ee: "ulp_exp x \<le> ulp_exp y" using x assms(2) by (rule ulp_exp_mono)
  show ?thesis
  proof (cases "ulp_exp x = ulp_exp y")
    case True
    have "x / pow2 (ulp_exp y) \<le> y / pow2 (ulp_exp y)"
      using assms(2) by (simp add: divide_right_mono)
    then have "round_even (x / pow2 (ulp_exp y)) \<le> round_even (y / pow2 (ulp_exp y))"
      by (rule round_even_mono)
    then have "real_of_int (round_even (x / pow2 (ulp_exp y))) * pow2 (ulp_exp y)
        \<le> real_of_int (round_even (y / pow2 (ulp_exp y))) * pow2 (ulp_exp y)"
      by (simp add: mult_right_mono)
    then show ?thesis by (simp add: b64_pos_unfold [OF x] b64_pos_unfold [OF y] True)
  next
    case False
    with ee have lt: "ulp_exp x < ulp_exp y" by simp
    let ?K = "ulp_exp y + 52"
    have Ky: "?K = \<lfloor>log 2 y\<rfloor>" and K: "- 1022 \<le> ?K" and Kx: "\<lfloor>log 2 x\<rfloor> + 1 \<le> ?K"
      using lt by (auto simp: ulp_exp_pos [OF x] ulp_exp_pos [OF y])
    have "pow2 ?K \<le> y" unfolding Ky using y by (rule floor_log2_bounds)
    then have lo: "pow2 ?K \<le> b64 y" using K by (rule b64_lower)
    have "x < pow2 (\<lfloor>log 2 x\<rfloor> + 1)" using x by (rule floor_log2_bounds)
    also have "\<dots> \<le> pow2 ?K" using Kx by simp
    finally have "x \<le> pow2 ?K" by simp
    with x have "b64 x \<le> pow2 ?K" using K by (rule b64_upper)
    with lo show ?thesis by linarith
  qed
qed

lemma b64_exact:
  assumes "pow2 E \<le> x" and "x < pow2 (E + 1)" and "- 1022 \<le> E"
    and "x / pow2 (E - 52) = of_int k"
  shows "b64 x = x"
proof -
  have x: "0 < x" using assms(1) pow2_pos [of E] by linarith
  have e: "ulp_exp x = E - 52" using assms(1,2,3) by (rule ulp_exp_normal)
  have r: "round_even (x / pow2 (E - 52)) = k"
    by (simp only: assms(4) round_even_of_int)
  have "b64 x = of_int k * pow2 (E - 52)"
    by (simp only: b64_pos_unfold [OF x] e r)
  also have "\<dots> = x / pow2 (E - 52) * pow2 (E - 52)"
    by (simp only: assms(4))
  also have "\<dots> = x" by (rule pow2_cancel)
  finally show ?thesis .
qed

lemma b64_of_int:
  assumes "0 \<le> z" and "z < 2 ^ 53"
  shows "b64 (of_int z) = of_int z"
proof (cases "z = 0")
  case True then show ?thesis by simp
next
  case False
  with assms have z: "0 < z" by simp
  let ?x = "real_of_int z"
  let ?E = "\<lfloor>log 2 ?x\<rfloor>"
  have x: "0 < ?x" using z by simp
  have "pow2 0 \<le> ?x" using z by simp
  then have E0: "0 \<le> ?E" by (rule floor_log2_ge)
  have b: "pow2 ?E \<le> ?x" "?x < pow2 (?E + 1)" using x by (rule floor_log2_bounds)+
  have "?E \<le> 52"
  proof (rule ccontr)
    assume "\<not> ?E \<le> 52"
    then have "pow2 53 \<le> pow2 ?E" by simp
    with b(1) have "pow2 53 \<le> ?x" by linarith
    moreover have "pow2 53 = real_of_int (2 ^ nat 53)" by (rule pow2_nat) simp
    ultimately have "real_of_int (2 ^ nat 53) \<le> ?x" by (simp only:)
    then have "2 ^ nat 53 \<le> z" by (simp only: of_int_le_iff)
    with assms(2) show False by simp
  qed
  then have nn: "0 \<le> 52 - ?E" by linarith
  have "?x / pow2 (?E - 52) = ?x * pow2 (52 - ?E)"
    by (simp add: pow2_diff)
  also have "\<dots> = ?x * of_int (2 ^ nat (52 - ?E))"
    using pow2_nat [OF nn] by (simp only:)
  also have "\<dots> = of_int (z * 2 ^ nat (52 - ?E))" by simp
  finally have q: "?x / pow2 (?E - 52) = of_int (z * 2 ^ nat (52 - ?E))" .
  from E0 have "- 1022 \<le> ?E" by linarith
  with b show ?thesis using q by (rule b64_exact)
qed


lemma b64_eval:
  "pow2 E \<le> x \<Longrightarrow> x < pow2 (E + 1) \<Longrightarrow> - 1022 \<le> E \<Longrightarrow>
   b64 x = of_int (round_even (x / pow2 (E - 52))) * pow2 (E - 52)"
proof -
  assume a: "pow2 E \<le> x" "x < pow2 (E + 1)" "- 1022 \<le> E"
  have x: "0 < x" using a(1) pow2_pos [of E] by linarith
  show ?thesis by (simp only: b64_pos_unfold [OF x] ulp_exp_normal [OF a])
qed


lemma pow2_m1: "pow2 (- 1) = 1 / 2"
  using pow2_Suc [of "- 1"] by simp

lemma pow2_half: "pow2 (k - 1) = pow2 k / 2"
  using pow2_Suc [of "k - 1"] by simp

lemma pow2_53: "pow2 53 = real_of_int (2 ^ 53)"
  using pow2_nat [of 53] by simp

lemma b64_fixed_below_one:
  assumes r0: "0 \<le> r" and r1: "r < 1" and fx: "b64 r = r"
  shows "r \<le> 1 - pow2 (- 53)"
proof (cases "r < 1 / 2")
  case True
  have "pow2 (- 53) \<le> pow2 (- 1)" by simp
  with True show ?thesis by (simp add: pow2_m1)
next
  case False
  define u where "u = pow2 (- 53)"
  define k where "k = round_even (r / u)"
  have u: "0 < u" by (simp add: u_def)
  have lo: "pow2 (- 1) \<le> r" using False by (simp add: pow2_m1)
  have hi: "r < pow2 (- 1 + 1)" using r1 by simp
  have e: "ulp_exp r = - 1 - 52" using lo hi by (rule ulp_exp_normal) simp
  have rpos: "0 < r" using False by simp
  have "b64 r = of_int k * u"
    unfolding k_def u_def using b64_pos_unfold [OF rpos] e by simp
  with fx have rk: "r = of_int k * u" by simp
  have one: "real_of_int (2 ^ 53) * u = 1"
    unfolding u_def pow2_53 [symmetric] pow2_add [symmetric] by simp
  have "of_int k * u < real_of_int (2 ^ 53) * u" using rk r1 one by simp
  then have "real_of_int k < real_of_int (2 ^ 53)" using u by (simp only: mult_less_cancel_right_pos)
  then have "k < 2 ^ 53" by (simp only: of_int_less_iff)
  then have "k \<le> 2 ^ 53 - 1" by simp
  then have "real_of_int k \<le> real_of_int (2 ^ 53 - 1)" by (simp only: of_int_le_iff)
  then have "real_of_int k * u \<le> real_of_int (2 ^ 53 - 1) * u"
    using u by (simp only: mult_le_cancel_right_pos)
  also have "\<dots> = real_of_int (2 ^ 53) * u - u" by (simp add: left_diff_distrib)
  also have "\<dots> = 1 - u" by (simp only: one)
  finally show ?thesis using rk by (simp add: u_def)
qed

lemma b64_mult_lt:
  assumes r0: "0 \<le> r" and r1: "r \<le> 1 - pow2 (- 53)" and n1: "1 \<le> n" and n2: "n < 2 ^ 53"
  shows "b64 (r * of_int n) < of_int n"
proof (cases "r * real_of_int n = 0")
  case True
  with n1 show ?thesis by simp
next
  case False
  define x where "x = r * real_of_int n"
  define N where "N = real_of_int n"
  define E where "E = \<lfloor>log 2 N\<rfloor>"
  define h where "h = pow2 (E - 53)"
  have N: "0 < N" "1 \<le> N" using n1 by (simp_all add: N_def)
  have x: "0 < x" using False r0 N by (simp add: x_def N_def zero_less_mult_iff)
  have h: "0 < h" by (simp add: h_def)
  have EN: "pow2 E \<le> N" "N < pow2 (E + 1)"
    unfolding E_def using N(1) by (rule floor_log2_bounds)+
  have "pow2 0 \<le> N" using N by simp
  then have E0: "0 \<le> E" unfolding E_def by (rule floor_log2_ge)
  have E52: "E \<le> 52"
  proof (rule ccontr)
    assume "\<not> E \<le> 52"
    then have "pow2 53 \<le> pow2 E" by simp
    with EN(1) have "real_of_int (2 ^ 53) \<le> real_of_int n" by (simp add: pow2_53 N_def)
    then have "2 ^ 53 \<le> n" by (simp only: of_int_le_iff)
    with n2 show False by simp
  qed
  have hE: "h = pow2 E * pow2 (- 53)" unfolding h_def pow2_add [symmetric] by simp
  have h2: "pow2 (E - 52) = 2 * h" unfolding h_def using pow2_Suc [of "E - 53"] by simp
  have "x \<le> (1 - pow2 (- 53)) * N"
    unfolding x_def N_def using r1 N(1) by (intro mult_right_mono) (simp_all add: N_def)
  then have xle: "x \<le> N - N * pow2 (- 53)" by (simp add: algebra_simps)
  have hN: "h \<le> N * pow2 (- 53)" unfolding hE using EN(1) by (intro mult_right_mono) simp_all
  show ?thesis
  proof (cases "pow2 E \<le> x")
    case True
    have xN: "x < N" using xle hN h by linarith
    with EN(2) have xhi: "x < pow2 (E + 1)" by linarith
    have e: "ulp_exp x = E - 52" using True xhi by (rule ulp_exp_normal) (use E0 in linarith)
    have "pow2 E < N" using True xN by linarith
    then have "pow2 E * pow2 (- 53) < N * pow2 (- 53)" by simp
    then have "h < N * pow2 (- 53)" by (simp only: hE)
    with xle have xlt: "x < N - h" by linarith
    define k where "k = n * 2 ^ nat (52 - E)"
    have nn: "0 \<le> 52 - E" using E52 by linarith
    have "real_of_int k = N * pow2 (52 - E)"
      unfolding k_def N_def using pow2_nat [OF nn] by simp
    also have "\<dots> = N / pow2 (E - 52)" by (simp add: pow2_diff)
    finally have k: "real_of_int k = N / (2 * h)" by (simp only: h2)
    have "x / (2 * h) < (N - h) / (2 * h)" using xlt h by (simp add: divide_strict_right_mono)
    also have "\<dots> = real_of_int k - 1 / 2" using h by (simp add: k diff_divide_distrib)
    finally have "round_even (x / (2 * h)) \<le> k - 1" by (rule round_even_below_half)
    then have "real_of_int (round_even (x / (2 * h))) \<le> real_of_int (k - 1)"
      by (simp only: of_int_le_iff)
    then have "real_of_int (round_even (x / (2 * h))) * (2 * h) \<le> real_of_int (k - 1) * (2 * h)"
      using h by (intro mult_right_mono) simp_all
    also have "\<dots> = N - 2 * h" using h by (simp add: k left_diff_distrib)
    finally have "b64 x \<le> N - 2 * h"
      by (simp only: b64_pos_unfold [OF x] e h2)
    with h show ?thesis unfolding x_def N_def by linarith
  next
    case False
    then have xE: "x \<le> pow2 E" by simp
    have K: "- 1022 \<le> E" using E0 by linarith
    show ?thesis
    proof (cases "pow2 E < N")
      case True
      have "b64 x \<le> pow2 E" using x xE K by (rule b64_upper)
      with True show ?thesis unfolding x_def N_def by linarith
    next
      case False
      with EN(1) have NE: "N = pow2 E" by simp
      define y where "y = pow2 E - h"
      have xy: "x \<le> y" using xle hN unfolding y_def NE by linarith
      have hle: "h \<le> pow2 (E - 1)" unfolding h_def by simp
      have ylo: "pow2 (E - 1) \<le> y" unfolding y_def using hle pow2_half [of E] by linarith
      have yhi: "y < pow2 (E - 1 + 1)" unfolding y_def using h by simp
      have "y / pow2 (E - 1 - 52) = (pow2 E - h) / h" by (simp add: y_def h_def)
      also have "\<dots> = pow2 E / h - 1" using h by (simp add: diff_divide_distrib)
      also have "pow2 E / h = pow2 53" unfolding h_def pow2_diff [symmetric] by simp
      also have "pow2 53 - 1 = real_of_int (2 ^ 53 - 1)" by (simp add: pow2_53)
      finally have yq: "y / pow2 (E - 1 - 52) = real_of_int (2 ^ 53 - 1)" .
      have "b64 y = y" using ylo yhi _ yq by (rule b64_exact) (use E0 in linarith)
      moreover have "b64 x \<le> b64 y" using xy x by (intro b64_mono) simp_all
      ultimately have "b64 x \<le> y" by simp
      with h show ?thesis unfolding x_def N_def NE [unfolded N_def] y_def
        using NE N_def by linarith
    qed
  qed
qed


subsection \<open>Draws and the functions that use them\<close>

lemma Rep_rnd_bounds: "0 \<le> Rep_rnd r" "Rep_rnd r < 1" "b64 (Rep_rnd r) = Rep_rnd r"
  using Rep_rnd [of r] by auto

lemma Rep_Abs_rnd: "0 \<le> x \<Longrightarrow> x < 1 \<Longrightarrow> b64 x = x \<Longrightarrow> Rep_rnd (Abs_rnd x) = x"
  by (simp add: Abs_rnd_inverse)


lemma Rep_rnd_max: "Rep_rnd r \<le> 1 - pow2 (- 53)"
  using Rep_rnd_bounds [of r] by (intro b64_fixed_below_one)

lemma draw_times_nonneg: "0 \<le> n \<Longrightarrow> 0 \<le> b64 (Rep_rnd r * of_int n)"
  using Rep_rnd_bounds(1) [of r] by (intro b64_nonneg) simp

lemma draw_times_lt: "1 \<le> n \<Longrightarrow> n < 2 ^ 53 \<Longrightarrow> b64 (Rep_rnd r * of_int n) < of_int n"
  using Rep_rnd_bounds(1) [of r] Rep_rnd_max [of r] by (intro b64_mult_lt)

lemma getRandomInt_range:
  assumes "mn \<le> mx" and "mx - mn + 1 < 2 ^ 53"
  shows "mn \<le> getRandomInt mn mx r" and "getRandomInt mn mx r \<le> mx"
proof -
  let ?n = "mx - mn + 1"
  have n: "1 \<le> ?n" using assms(1) by simp
  have "0 \<le> b64 (Rep_rnd r * of_int ?n)" using n by (intro draw_times_nonneg) simp
  then have "0 \<le> \<lfloor>b64 (Rep_rnd r * of_int ?n)\<rfloor>" by simp
  then show "mn \<le> getRandomInt mn mx r" by (simp add: getRandomInt_def)
  have "b64 (Rep_rnd r * of_int ?n) < of_int ?n" using n assms(2) by (rule draw_times_lt)
  then have "\<lfloor>b64 (Rep_rnd r * of_int ?n)\<rfloor> < ?n" by (rule floor_less_iff [THEN iffD2])
  then show "getRandomInt mn mx r \<le> mx" by (simp add: getRandomInt_def)
qed


lemma getRandomItem_in_range:
  assumes "arr \<noteq> []" and "int (length arr) < 2 ^ 53"
  shows "getRandomItem arr r \<in> set arr"
proof -
  let ?n = "int (length arr)"
  have n: "1 \<le> ?n" using assms(1) by (cases arr) simp_all
  have "0 \<le> b64 (Rep_rnd r * of_int ?n)" using n by (intro draw_times_nonneg) simp
  then have lo: "0 \<le> \<lfloor>b64 (Rep_rnd r * of_int ?n)\<rfloor>" by simp
  have "b64 (Rep_rnd r * of_int ?n) < of_int ?n" using n assms(2) by (rule draw_times_lt)
  then have "\<lfloor>b64 (Rep_rnd r * of_int ?n)\<rfloor> < ?n" by (rule floor_less_iff [THEN iffD2])
  with lo have "nat \<lfloor>b64 (Rep_rnd r * of_int ?n)\<rfloor> < length arr" by linarith
  then show ?thesis by (simp add: getRandomItem_def)
qed

text \<open>
  Two draws at which rounding decides the result: the product with 6 lies half a unit in
  the last place below 5 and is rounded to 5, where exact arithmetic gives the index 4;
  the sum with 10 is rounded to 16.125, which \<open>toFixed(2)\<close> takes to 16.13, where exact
  arithmetic gives 16.12.
\<close>

lemma getRandomItem_tie:
  "getRandomItem [INFO, INFO, INFO, WARN, ERROR, DEBUG] (Abs_rnd (3752999689475413 / 2 ^ 52)) = DEBUG"
proof -
  define r :: real where "r = 3752999689475413 / 2 ^ 52"
  have fx: "b64 r = r"
    unfolding r_def
    by (rule b64_exact [where E = "- 1" and k = "3752999689475413 * 2"])
      (simp_all add: pow2_numeral pow2_m1)
  have ra: "Rep_rnd (Abs_rnd r) = r"
    by (rule Rep_Abs_rnd [OF _ _ fx]) (simp_all add: r_def)
  have "b64 (r * 6) = of_int (round_even (r * 6 / pow2 (2 - 52))) * pow2 (2 - 52)"
    by (rule b64_eval) (simp_all add: pow2_numeral r_def)
  also have "round_even (r * 6 / pow2 (2 - 52)) = 5 * 2 ^ 50"
    by (simp add: pow2_numeral round_even_def Let_def r_def)
  finally have p: "b64 (r * 6) = 5"
    by (simp add: pow2_numeral)
  have "getRandomItem [INFO, INFO, INFO, WARN, ERROR, DEBUG] (Abs_rnd r) = DEBUG"
    by (simp add: getRandomItem_def ra p)
  then show ?thesis unfolding r_def .
qed

lemma getRandomFloat_tie:
  "getRandomFloat 10 1000 (Abs_rnd (27863179512772 / 2 ^ 52)) = b64 (1613 / 100)"
proof -
  define r :: real where "r = 27863179512772 / 2 ^ 52"
  have fx: "b64 r = r"
    unfolding r_def
    by (rule b64_exact [where E = "- 8" and k = "27863179512772 * 2 ^ 8"])
      (simp_all add: pow2_numeral)
  have ra: "Rep_rnd (Abs_rnd r) = r"
    by (rule Rep_Abs_rnd [OF _ _ fx]) (simp_all add: r_def)
  have "b64 (real_of_int 990) = real_of_int 990"
    by (rule b64_of_int) simp_all
  then have w: "b64 990 = 990" by simp
  have pr: "b64 (r * 990) = r * 990"
    by (rule b64_exact [where E = 2 and k = "6896136929411070"])
      (simp_all add: pow2_numeral r_def)
  have "b64 (r * 990 + 10)
      = of_int (round_even ((r * 990 + 10) / pow2 (4 - 52))) * pow2 (4 - 52)"
    by (rule b64_eval) (simp_all add: pow2_numeral r_def)
  also have "round_even ((r * 990 + 10) / pow2 (4 - 52)) = 4538783999459328"
    by (simp add: pow2_numeral round_even_def Let_def r_def)
  finally have su: "b64 (r * 990 + 10) = 129 / 8"
    by (simp add: pow2_numeral)
  have "getRandomFloat 10 1000 (Abs_rnd r) = b64 (1613 / 100)"
    by (simp add: getRandomFloat_def ra w pr su)
  then show ?thesis unfolding r_def .
qed

section \<open>The endpoint catalog\<close>

lemma catalog_paths:
  "map ep_path MOCK_API_ENDPOINTS
     = [''/users/{id}'', ''/users'', ''/products'', ''/products/{id}'', ''/orders'', ''/status'']"
  by (simp add: MOCK_API_ENDPOINTS_def mkEndpoint_def)

lemma catalog_distinct: "distinct (map ep_path MOCK_API_ENDPOINTS)"
  unfolding catalog_paths by simp

lemma find_distinct:
  "distinct (map f xs) \<Longrightarrow> x \<in> set xs \<Longrightarrow> find (\<lambda>y. f y = f x) xs = Some x"
  by (induction xs) (auto simp: image_iff)

lemma catalog_find:
  "ep \<in> set MOCK_API_ENDPOINTS \<Longrightarrow> ep_path ep = path \<Longrightarrow>
   find (\<lambda>e. ep_path e = path) MOCK_API_ENDPOINTS = Some ep"
  using find_distinct [OF catalog_distinct, of ep] by auto

lemma catalog_find_None:
  "path \<notin> ep_path ` set MOCK_API_ENDPOINTS \<Longrightarrow>
   find (\<lambda>e. ep_path e = path) MOCK_API_ENDPOINTS = None"
  by (auto simp: find_None_iff)


lemma catalog_not_path:
  "path \<notin> set (map ep_path MOCK_API_ENDPOINTS) \<Longrightarrow> path \<notin> ep_path ` set MOCK_API_ENDPOINTS"
  by simp

lemma endpoint_orders:
  "MOCK_API_ENDPOINTS ! 4 \<in> set MOCK_API_ENDPOINTS"
  "ep_path (MOCK_API_ENDPOINTS ! 4) = ''/orders''"
  "ep_method (MOCK_API_ENDPOINTS ! 4) = POST"
  "isAuthenticated (MOCK_API_ENDPOINTS ! 4)"
  by (simp_all add: MOCK_API_ENDPOINTS_def mkEndpoint_def)

lemma endpoint_users_id:
  "MOCK_API_ENDPOINTS ! 0 \<in> set MOCK_API_ENDPOINTS"
  "ep_path (MOCK_API_ENDPOINTS ! 0) = ''/users/{id}''"
  "ep_method (MOCK_API_ENDPOINTS ! 0) = GET"
  "isAuthenticated (MOCK_API_ENDPOINTS ! 0)"
  by (simp_all add: MOCK_API_ENDPOINTS_def mkEndpoint_def)

lemma exampleStore_keys:
  "find (\<lambda>k. key_id k = ''k1'') (apiKeys exampleStore) = Some (exampleKey ''k1'' ''env-1'' Key_Active [''admin''])"
  "find (\<lambda>k. key_id k = ''k2'') (apiKeys exampleStore)
     = Some (exampleKey ''k2'' ''env-2'' Key_Revoked [''read:data'', ''write:data''])"
  "find (\<lambda>k. key_id k = ''k3'') (apiKeys exampleStore) = Some (exampleKey ''k3'' ''env-1'' Key_Active [''read:data''])"
  "find (\<lambda>k. key_id k = ''k4'') (apiKeys exampleStore) = Some (exampleKey ''k4'' ''env-2'' Key_Active [''write:data''])"
  "find (\<lambda>k. key_id k = ''k9'') (apiKeys exampleStore) = None"
  by (simp_all add: exampleStore_def exampleKey_def)

lemma exampleKey_sel [simp]:
  "key_status (exampleKey i e st ps) = st" "key_permissions (exampleKey i e st ps) = ps"
  "key_id (exampleKey i e st ps) = i" "key_environmentId (exampleKey i e st ps) = e"
  by (simp_all add: exampleKey_def)

section \<open>Requests that end in an error status\<close>

text \<open>
  C4. A request whose path is the path of no endpoint of the catalog ends with status 404,
  the message "Mock endpoint not found" and details that name the path and the method,
  whatever the method, the store and the selected key.
\<close>

theorem unknown_path_404:
  assumes "path \<notin> ep_path ` set MOCK_API_ENDPOINTS"
  shows "snd (handleSendRequest s sel m path env) =
    \<lparr>response = Some (JObject [(''message'', JString ''Mock endpoint not found''),
        (''details'', JString (''Path: '' @ path @ '', Method: '' @ methodName m))]),
     isLoading = False, statusCode = Some 404,
     responseTime = Some (b64 (clk_finally env - clk_start env)),
     error = Some ''Mock endpoint not found.''\<rparr>"
  using catalog_find_None [OF assms]
  by (simp add: handleSendRequest_def tryBlock_def afterTry_def finallyBlock_def)

theorem unknown_path_404_witness:
  "''/nonexistent'' \<notin> ep_path ` set MOCK_API_ENDPOINTS
   \<and> statusCode (snd (handleSendRequest exampleStore ''k1'' DELETE ''/nonexistent'' exampleEnv)) = Some 404
   \<and> response (snd (handleSendRequest exampleStore [] GET ''/nonexistent'' exampleEnv))
       = Some (JObject [(''message'', JString ''Mock endpoint not found''),
           (''details'', JString ''Path: /nonexistent, Method: GET'')])"
proof -
  have h: "''/nonexistent'' \<notin> ep_path ` set MOCK_API_ENDPOINTS"
    by (rule catalog_not_path) (simp add: catalog_paths)
  show ?thesis
    using h unknown_path_404 [OF h, of exampleStore "''k1''" DELETE exampleEnv]
      unknown_path_404 [OF h, of exampleStore "[]" GET exampleEnv]
    by simp
qed

text \<open>
  C5. A request whose path is the path of a catalog endpoint and whose method is not the
  method of that endpoint ends with status 405 and a body that names both methods,
  whatever the store and the selected key: the method is compared before any key is
  looked at.
\<close>

theorem wrong_method_405:
  assumes "ep \<in> set MOCK_API_ENDPOINTS" and "ep_path ep = path" and "m \<noteq> ep_method ep"
  shows "snd (handleSendRequest s sel m path env) =
    \<lparr>response = Some (JObject [(''message'', JString ''Method Not Allowed''),
        (''details'', JString (''Expected '' @ methodName (ep_method ep) @ '', got '' @ methodName m))]),
     isLoading = False, statusCode = Some 405,
     responseTime = Some (b64 (clk_finally env - clk_start env)),
     error = Some ''Method Not Allowed.''\<rparr>"
  using catalog_find [OF assms(1,2)] assms(3)
  by (simp add: handleSendRequest_def tryBlock_def afterTry_def finallyBlock_def)

theorem wrong_method_405_witness:
  "MOCK_API_ENDPOINTS ! 4 \<in> set MOCK_API_ENDPOINTS
   \<and> ep_path (MOCK_API_ENDPOINTS ! 4) = ''/orders''
   \<and> GET \<noteq> ep_method (MOCK_API_ENDPOINTS ! 4)
   \<and> statusCode (snd (handleSendRequest exampleStore ''k1'' GET ''/orders'' exampleEnv)) = Some 405
   \<and> response (snd (handleSendRequest exampleStore [] GET ''/orders'' exampleEnv))
       = Some (JObject [(''message'', JString ''Method Not Allowed''),
           (''details'', JString ''Expected POST, got GET'')])"
proof -
  have g: "GET \<noteq> ep_method (MOCK_API_ENDPOINTS ! 4)"
    by (simp add: endpoint_orders)
  show ?thesis
    using g endpoint_orders
      wrong_method_405 [OF endpoint_orders(1,2) g, of exampleStore "''k1''" exampleEnv]
      wrong_method_405 [OF endpoint_orders(1,2) g, of exampleStore "[]" exampleEnv]
    by simp
qed

text \<open>
  C6. A request to an authenticated catalog endpoint with its method ends with status 401
  and "API Key required" when no key is selected, and with status 401 and "Invalid or
  revoked API Key" when a key id is selected that finds no key in the store or a key
  that is not active. In both cases the \<open>try\<close> block returns: the status is a value that
  the block sets, the \<open>catch\<close> block does not run.
\<close>

theorem unauthorized_401:
  assumes "ep \<in> set MOCK_API_ENDPOINTS" and "ep_path ep = path" and "ep_method ep = m"
    and "isAuthenticated ep"
  shows "(sel = [] \<longrightarrow>
            (\<exists>t. tryBlock s sel m path env t0 = Returned t \<and> statusCode t = Some 401)
          \<and> snd (handleSendRequest s sel m path env) =
              \<lparr>response = Some (JObject [(''message'', JString ''Unauthorized''),
                  (''details'', JString ''API Key required'')]),
               isLoading = False, statusCode = Some 401,
               responseTime = Some (b64 (clk_finally env - clk_start env)),
               error = Some ''Unauthorized: API Key required.''\<rparr>)
    \<and> (sel \<noteq> [] \<and> (find (\<lambda>k. key_id k = sel) (apiKeys s) = None
                      \<or> (\<exists>k. find (\<lambda>k. key_id k = sel) (apiKeys s) = Some k
                              \<and> key_status k \<noteq> Key_Active)) \<longrightarrow>
            (\<exists>t. tryBlock s sel m path env t0 = Returned t \<and> statusCode t = Some 401)
          \<and> snd (handleSendRequest s sel m path env) =
              \<lparr>response = Some (JObject [(''message'', JString ''Unauthorized''),
                  (''details'', JString ''Invalid or revoked API Key'')]),
               isLoading = False, statusCode = Some 401,
               responseTime = Some (b64 (clk_finally env - clk_start env)),
               error = Some ''Unauthorized: Invalid API Key.''\<rparr>)"
  using catalog_find [OF assms(1,2)] assms(3,4)
  by (auto simp: handleSendRequest_def tryBlock_def afterTry_def finallyBlock_def)

theorem unauthorized_401_witness:
  "MOCK_API_ENDPOINTS ! 0 \<in> set MOCK_API_ENDPOINTS
   \<and> ep_path (MOCK_API_ENDPOINTS ! 0) = ''/users/{id}''
   \<and> ep_method (MOCK_API_ENDPOINTS ! 0) = GET
   \<and> isAuthenticated (MOCK_API_ENDPOINTS ! 0)
   \<and> error (snd (handleSendRequest exampleStore [] GET ''/users/{id}'' exampleEnv))
       = Some ''Unauthorized: API Key required.''
   \<and> statusCode (snd (handleSendRequest exampleStore [] GET ''/users/{id}'' exampleEnv)) = Some 401
   \<and> find (\<lambda>k. key_id k = ''k2'') (apiKeys exampleStore)
       = Some (exampleKey ''k2'' ''env-2'' Key_Revoked [''read:data'', ''write:data''])
   \<and> error (snd (handleSendRequest exampleStore ''k2'' GET ''/users/{id}'' exampleEnv))
       = Some ''Unauthorized: Invalid API Key.''
   \<and> find (\<lambda>k. key_id k = ''k9'') (apiKeys exampleStore) = None
   \<and> statusCode (snd (handleSendRequest exampleStore ''k9'' GET ''/users/{id}'' exampleEnv)) = Some 401"
  using endpoint_users_id exampleStore_keys(2,5)
    unauthorized_401 [OF endpoint_users_id, of "[]" exampleStore exampleEnv]
    unauthorized_401 [OF endpoint_users_id, of "''k2''" exampleStore exampleEnv]
    unauthorized_401 [OF endpoint_users_id, of "''k9''" exampleStore exampleEnv]
  by simp

section \<open>The permission check\<close>

lemma permissionCheckFails_write:
  "m \<in> {POST, PUT, DELETE, PATCH} \<Longrightarrow> ''write:data'' \<notin> set ps \<Longrightarrow> ''admin'' \<notin> set ps \<Longrightarrow>
   permissionCheckFails m ps"
  by (auto simp: permissionCheckFails_def)

lemma admin_passes_write_check:
  "''admin'' \<in> set ps \<Longrightarrow> m \<noteq> GET \<Longrightarrow> \<not> permissionCheckFails m ps"
  by (simp add: permissionCheckFails_def)

lemma forbidden_state:
  assumes "find (\<lambda>e. ep_path e = path) MOCK_API_ENDPOINTS = Some ep" and "ep_method ep = m"
    and "isAuthenticated ep" and "sel \<noteq> []"
    and "find (\<lambda>k. key_id k = sel) (apiKeys s) = Some k" and "key_status k = Key_Active"
    and "permissionCheckFails m (key_permissions k)"
  shows "snd (handleSendRequest s sel m path env) =
    \<lparr>response = Some (JObject [(''message'', JString ''Forbidden''),
        (''details'', JString ''API Key does not have required permissions'')]),
     isLoading = False, statusCode = Some 403,
     responseTime = Some (b64 (clk_finally env - clk_start env)),
     error = Some ''Forbidden: Insufficient permissions.''\<rparr>"
  using assms
  by (simp add: handleSendRequest_def tryBlock_def afterTry_def finallyBlock_def)

text \<open>
  C3. A POST, PUT, DELETE or PATCH request to an authenticated catalog endpoint with that
  method, with a selected key that is in the store and active and has neither
  \<open>write:data\<close> nor \<open>admin\<close> among its permissions, ends with status 403 and the body of
  insufficient permissions. The authenticated endpoints of the catalog have the methods
  GET, POST and DELETE; that the check itself fails for each of the four write methods is
  \<open>permissionCheckFails_write\<close>.
\<close>

theorem write_without_permission_403:
  assumes "ep \<in> set MOCK_API_ENDPOINTS" and "ep_path ep = path" and "ep_method ep = m"
    and "isAuthenticated ep" and "m \<in> {POST, PUT, DELETE, PATCH}" and "sel \<noteq> []"
    and "find (\<lambda>k. key_id k = sel) (apiKeys s) = Some k" and "key_status k = Key_Active"
    and "''write:data'' \<notin> set (key_permissions k)" and "''admin'' \<notin> set (key_permissions k)"
  shows "snd (handleSendRequest s sel m path env) =
    \<lparr>response = Some (JObject [(''message'', JString ''Forbidden''),
        (''details'', JString ''API Key does not have required permissions'')]),
     isLoading = False, statusCode = Some 403,
     responseTime = Some (b64 (clk_finally env - clk_start env)),
     error = Some ''Forbidden: Insufficient permissions.''\<rparr>"
  by (rule forbidden_state [OF catalog_find [OF assms(1,2)] assms(3,4,6,7,8)
        permissionCheckFails_write [OF assms(5,9,10)]])

theorem write_without_permission_403_witness:
  "MOCK_API_ENDPOINTS ! 4 \<in> set MOCK_API_ENDPOINTS
   \<and> ep_path (MOCK_API_ENDPOINTS ! 4) = ''/orders''
   \<and> ep_method (MOCK_API_ENDPOINTS ! 4) = POST
   \<and> isAuthenticated (MOCK_API_ENDPOINTS ! 4)
   \<and> POST \<in> {POST, PUT, DELETE, PATCH}
   \<and> ''k3'' \<noteq> []
   \<and> find (\<lambda>k. key_id k = ''k3'') (apiKeys exampleStore)
       = Some (exampleKey ''k3'' ''env-1'' Key_Active [''read:data''])
   \<and> key_status (exampleKey ''k3'' ''env-1'' Key_Active [''read:data'']) = Key_Active
   \<and> ''write:data'' \<notin> set (key_permissions (exampleKey ''k3'' ''env-1'' Key_Active [''read:data'']))
   \<and> ''admin'' \<notin> set (key_permissions (exampleKey ''k3'' ''env-1'' Key_Active [''read:data'']))
   \<and> statusCode (snd (handleSendRequest exampleStore ''k3'' POST ''/orders'' exampleEnv)) = Some 403
   \<and> error (snd (handleSendRequest exampleStore ''k3'' POST ''/orders'' exampleEnv))
       = Some ''Forbidden: Insufficient permissions.''"
proof -
  have p: "POST \<in> {POST, PUT, DELETE, PATCH}" "''k3'' \<noteq> []"
    "key_status (exampleKey ''k3'' ''env-1'' Key_Active [''read:data'']) = Key_Active"
    "''write:data'' \<notin> set (key_permissions (exampleKey ''k3'' ''env-1'' Key_Active [''read:data'']))"
    "''admin'' \<notin> set (key_permissions (exampleKey ''k3'' ''env-1'' Key_Active [''read:data'']))"
    by simp_all
  show ?thesis
    using endpoint_orders exampleStore_keys(3) p
      write_without_permission_403 [OF endpoint_orders p(1,2) exampleStore_keys(3) p(3,4,5),
        of exampleEnv]
    by simp
qed

text \<open>
  C2. The claim is that an active key with \<open>admin\<close> passes every permission check, GET
  included. The code does otherwise for GET: the condition of the check is
  \<open>(no admin && write method && no write:data) || (GET && no read:data)\<close>, so the test
  for \<open>admin\<close> guards the write methods only. A GET request to an authenticated catalog
  endpoint with an active key that has \<open>admin\<close> and not \<open>read:data\<close> ends with status
  403.
\<close>

theorem admin_get_forbidden:
  assumes "ep \<in> set MOCK_API_ENDPOINTS" and "ep_path ep = path" and "ep_method ep = GET"
    and "isAuthenticated ep" and "sel \<noteq> []"
    and "find (\<lambda>k. key_id k = sel) (apiKeys s) = Some k" and "key_status k = Key_Active"
    and "''admin'' \<in> set (key_permissions k)" and "''read:data'' \<notin> set (key_permissions k)"
  shows "snd (handleSendRequest s sel GET path env) =
    \<lparr>response = Some (JObject [(''message'', JString ''Forbidden''),
        (''details'', JString ''API Key does not have required permissions'')]),
     isLoading = False, statusCode = Some 403,
     responseTime = Some (b64 (clk_finally env - clk_start env)),
     error = Some ''Forbidden: Insufficient permissions.''\<rparr>"
proof -
  have "permissionCheckFails GET (key_permissions k)"
    using assms(9) by (simp add: permissionCheckFails_def)
  then show ?thesis
    by (rule forbidden_state [OF catalog_find [OF assms(1,2)] assms(3,4,5,6,7)])
qed

theorem admin_get_forbidden_witness:
  "MOCK_API_ENDPOINTS ! 0 \<in> set MOCK_API_ENDPOINTS
   \<and> ep_path (MOCK_API_ENDPOINTS ! 0) = ''/users/{id}''
   \<and> ep_method (MOCK_API_ENDPOINTS ! 0) = GET
   \<and> isAuthenticated (MOCK_API_ENDPOINTS ! 0)
   \<and> ''k1'' \<noteq> []
   \<and> find (\<lambda>k. key_id k = ''k1'') (apiKeys exampleStore)
       = Some (exampleKey ''k1'' ''env-1'' Key_Active [''admin''])
   \<and> key_status (exampleKey ''k1'' ''env-1'' Key_Active [''admin'']) = Key_Active
   \<and> ''admin'' \<in> set (key_permissions (exampleKey ''k1'' ''env-1'' Key_Active [''admin'']))
   \<and> ''read:data'' \<notin> set (key_permissions (exampleKey ''k1'' ''env-1'' Key_Active [''admin'']))
   \<and> statusCode (snd (handleSendRequest exampleStore ''k1'' GET ''/users/{id}'' exampleEnv)) = Some 403
   \<and> error (snd (handleSendRequest exampleStore ''k1'' GET ''/users/{id}'' exampleEnv))
       = Some ''Forbidden: Insufficient permissions.''"
proof -
  have p: "''k1'' \<noteq> []"
    "key_status (exampleKey ''k1'' ''env-1'' Key_Active [''admin'']) = Key_Active"
    "''admin'' \<in> set (key_permissions (exampleKey ''k1'' ''env-1'' Key_Active [''admin'']))"
    "''read:data'' \<notin> set (key_permissions (exampleKey ''k1'' ''env-1'' Key_Active [''admin'']))"
    by simp_all
  show ?thesis
    using endpoint_users_id exampleStore_keys(1) p
      admin_get_forbidden [OF endpoint_users_id p(1) exampleStore_keys(1) p(2,3,4), of exampleEnv]
    by simp
qed

section \<open>The latency of a request\<close>












section \<open>Refreshing the logs of an environment\<close>

lemma mockLogEntry_env: "log_environmentId (mockLogEntry envId d) = envId"
  by (simp add: mockLogEntry_def Let_def)

lemma generateMockLogs_env:
  "e \<in> set (generateMockLogs envId n sd) \<Longrightarrow> log_environmentId e = envId"
  by (auto simp: generateMockLogs_def mockLogEntry_env)

lemma generateMockLogs_length: "length (generateMockLogs envId n sd) = nat n"
  by (simp add: generateMockLogs_def)

lemma generateMockLogs_newestFirst: "newestFirst (generateMockLogs envId n sd)"
proof -
  have "sorted (map (\<lambda>entry. - log_timestamp entry) (generateMockLogs envId n sd))"
    unfolding generateMockLogs_def by (rule sorted_sort_key)
  then show ?thesis
    by (simp add: newestFirst_def sorted_map)
qed

lemma filter_own_batch:
  "filter (\<lambda>e. log_environmentId e = envId) (generateMockLogs envId n sd) = generateMockLogs envId n sd"
  by (rule filter_True) (simp add: generateMockLogs_env)

lemma filter_other_batch:
  "other \<noteq> envId \<Longrightarrow> filter (\<lambda>e. log_environmentId e = other) (generateMockLogs envId n sd) = []"
  by (auto simp: filter_empty_conv dest: generateMockLogs_env)

lemma filter_env_commute:
  "other \<noteq> envId \<Longrightarrow>
   filter (\<lambda>e. log_environmentId e = other) (filter (\<lambda>e. log_environmentId e \<noteq> envId) xs)
     = filter (\<lambda>e. log_environmentId e = other) xs"
  by (induction xs) auto

lemma filter_env_removed:
  "filter (\<lambda>e. log_environmentId e = envId) (filter (\<lambda>e. log_environmentId e \<noteq> envId) xs) = []"
  by (induction xs) auto

lemma refreshLogs_own:
  "filter (\<lambda>e. log_environmentId e = envId) (logs (refreshLogs envId cd sd s))
     = generateMockLogs envId (getRandomInt 5 20 cd) sd"
  by (simp add: refreshLogs_def Let_def filter_own_batch filter_env_removed del: filter_filter)

lemma refreshLogs_others:
  "other \<noteq> envId \<Longrightarrow>
   filter (\<lambda>e. log_environmentId e = other) (logs (refreshLogs envId cd sd s))
     = filter (\<lambda>e. log_environmentId e = other) (logs s)"
  by (simp add: refreshLogs_def Let_def filter_other_batch filter_env_commute del: filter_filter)

text \<open>
  C7. After \<open>refreshLogs(envId)\<close> the log entries of \<open>envId\<close> are the generated batch and
  nothing else, whatever entries the environment had before; the batch has 5 to 20
  entries; and the log entries of every other environment are those it had before, in
  the same order.
\<close>

theorem refreshLogs_replaces:
  "filter (\<lambda>e. log_environmentId e = envId) (logs (refreshLogs envId cd sd s))
     = generateMockLogs envId (getRandomInt 5 20 cd) sd
   \<and> 5 \<le> length (generateMockLogs envId (getRandomInt 5 20 cd) sd)
   \<and> length (generateMockLogs envId (getRandomInt 5 20 cd) sd) \<le> 20
   \<and> (\<forall>other. other \<noteq> envId \<longrightarrow>
         filter (\<lambda>e. log_environmentId e = other) (logs (refreshLogs envId cd sd s))
           = filter (\<lambda>e. log_environmentId e = other) (logs s))"
proof -
  have own: "filter (\<lambda>e. log_environmentId e = envId) (logs (refreshLogs envId cd sd s))
     = generateMockLogs envId (getRandomInt 5 20 cd) sd"
    by (rule refreshLogs_own)
  have len: "5 \<le> length (generateMockLogs envId (getRandomInt 5 20 cd) sd)"
    "length (generateMockLogs envId (getRandomInt 5 20 cd) sd) \<le> 20"
    using getRandomInt_range [of 5 20 cd] by (simp_all add: generateMockLogs_length)
  have others: "\<forall>other. other \<noteq> envId \<longrightarrow>
         filter (\<lambda>e. log_environmentId e = other) (logs (refreshLogs envId cd sd s))
           = filter (\<lambda>e. log_environmentId e = other) (logs s)"
    by (simp add: refreshLogs_others)
  from own len others show ?thesis by blast
qed

theorem refreshLogs_replaces_witness:
  "''env-2'' \<noteq> ''env-1''
   \<and> map log_id (filter (\<lambda>e. log_environmentId e = ''env-2'')
                   (logs (refreshLogs ''env-1'' (Abs_rnd 0) exampleSeed exampleStore))) = [''l2'']
   \<and> length (filter (\<lambda>e. log_environmentId e = ''env-1'')
               (logs (refreshLogs ''env-1'' (Abs_rnd 0) exampleSeed exampleStore))) = 5"
proof -
  have n: "getRandomInt 5 20 (Abs_rnd 0) = 5"
    by (simp add: getRandomInt_def Rep_Abs_rnd)
  have old: "map log_id (filter (\<lambda>e. log_environmentId e = ''env-2'') (logs exampleStore)) = [''l2'']"
    by (simp add: exampleStore_def exampleLog_def)
  show ?thesis
    using refreshLogs_replaces [of "''env-1''" "Abs_rnd 0" exampleSeed exampleStore]
    by (simp add: n old generateMockLogs_length)
qed

section \<open>The order of the logs\<close>

lemma newestFirst_filter: "newestFirst xs \<Longrightarrow> newestFirst (filter P xs)"
  unfolding newestFirst_def by (rule sorted_wrt_filter)

lemma newestFirst_take: "newestFirst xs \<Longrightarrow> newestFirst (take n xs)"
  unfolding newestFirst_def by (rule sorted_wrt_take)

lemma filteredLogs_newestFirst:
  "logsNewestFirst s envId \<Longrightarrow> newestFirst (filteredLogs s envId fl fs st tm n)"
proof -
  assume "logsNewestFirst s envId"
  then have own: "newestFirst (filter (\<lambda>entry. log_environmentId entry = envId) (logs s))"
    by (simp add: logsNewestFirst_def)
  show ?thesis
    unfolding filteredLogs_def Let_def
    by (rule newestFirst_take, rule newestFirst_filter, rule own)
qed

lemma logsNewestFirst_cong: "logs s' = logs s \<Longrightarrow> logsNewestFirst s' envId = logsNewestFirst s envId"
  by (simp add: logsNewestFirst_def)

lemma deleteEnvironment_newestFirst:
  "logsNewestFirst s envId \<Longrightarrow> logsNewestFirst (deleteEnvironment i s) envId"
proof -
  assume a: "logsNewestFirst s envId"
  have "filter (\<lambda>e. log_environmentId e = envId) (filter (\<lambda>e. log_environmentId e \<noteq> i) (logs s))
      = filter (\<lambda>e. log_environmentId e \<noteq> i) (filter (\<lambda>e. log_environmentId e = envId) (logs s))"
    by (simp add: conj_commute)
  then show ?thesis
    using a newestFirst_filter [of "filter (\<lambda>e. log_environmentId e = envId) (logs s)"
        "\<lambda>e. log_environmentId e \<noteq> i"]
    by (simp add: logsNewestFirst_def deleteEnvironment_def del: filter_filter)
qed

lemma refreshLogs_newestFirst:
  "logsNewestFirst s envId \<Longrightarrow> logsNewestFirst (refreshLogs i cd sd s) envId"
  by (cases "envId = i")
    (simp_all add: logsNewestFirst_def refreshLogs_own refreshLogs_others generateMockLogs_newestFirst)

lemma addLog_newestFirst:
  assumes "logsNewestFirst s envId"
    and "\<forall>old \<in> set (logs s). log_environmentId old = log_environmentId entry
            \<longrightarrow> log_timestamp old \<le> log_timestamp entry"
  shows "logsNewestFirst (addLog entry s) envId"
  using assms by (auto simp: logsNewestFirst_def newestFirst_def addLog_def)

lemma mock_env_ids:
  "map env_id MOCK_ENVIRONMENTS = [''env-1'', ''env-2'', ''env-3'', ''env-4'', ''env-5'', ''env-6'', ''env-7'']"
  by (simp add: MOCK_ENVIRONMENTS_def mkEnv_def)

lemma mock_env_distinct: "distinct (map env_id MOCK_ENVIRONMENTS)"
  unfolding mock_env_ids by simp

lemma concat_batches_newestFirst:
  assumes tagged: "\<And>env e. e \<in> set (gen env) \<Longrightarrow> log_environmentId e = env_id env"
    and sorted: "\<And>env. newestFirst (gen env)"
  shows "distinct (map env_id envs) \<Longrightarrow>
    newestFirst (filter (\<lambda>e. log_environmentId e = i) (concat (map gen envs)))"
proof (induction envs)
  case Nil
  show ?case by (simp add: newestFirst_def)
next
  case (Cons env envs)
  show ?case
  proof (cases "env_id env = i")
    case True
    then have "i \<notin> env_id ` set envs" using Cons.prems by auto
    then have rest: "filter (\<lambda>e. log_environmentId e = i) (concat (map gen envs)) = []"
      using tagged by (auto simp: filter_empty_conv)
    have own: "filter (\<lambda>e. log_environmentId e = i) (gen env) = gen env"
      by (rule filter_True) (simp add: tagged True)
    show ?thesis by (simp add: rest own sorted)
  next
    case False
    then have "filter (\<lambda>e. log_environmentId e = i) (gen env) = []"
      by (auto simp: filter_empty_conv dest: tagged)
    then show ?thesis using Cons by simp
  qed
qed

lemma initialStore_newestFirst: "logsNewestFirst (initialStore ks hs cd sd) envId"
  unfolding logsNewestFirst_def initialStore_def initialLogs_def
  by (simp, rule concat_batches_newestFirst [OF _ _ mock_env_distinct])
    (simp_all add: generateMockLogs_env generateMockLogs_newestFirst)

text \<open>
  C8. The claim is that in every reachable store the list read for an environment is
  newest first, and that every store operation keeps it so, \<open>addLog\<close> included. \<open>addLog\<close>
  prepends the entry it is given and nothing sorts at read time, so the claim fails when
  the entry is older than a stored entry of its environment (\<open>addLog_breaks_newestFirst\<close>
  below). What holds: the store at mount keeps every environment newest first; in a store
  that does, the list read for any environment, under any filter and display count, is
  newest first; every operation other than \<open>addLog\<close> keeps the property, \<open>refreshLogs\<close>
  included; and \<open>addLog(entry)\<close> keeps it when no stored entry of the environment of
  \<open>entry\<close> is later than \<open>entry\<close>.
\<close>

theorem newestFirst_invariant:
  assumes "\<forall>envId. logsNewestFirst s envId"
  shows "(\<forall>envId fl fs st tm n. newestFirst (filteredLogs s envId fl fs st tm n))
    \<and> (\<forall>envId. logsNewestFirst (setSelectedEnvironmentId sel s) envId)
    \<and> (\<forall>envId. logsNewestFirst (addEnvironment env s) envId)
    \<and> (\<forall>envId. logsNewestFirst (updateEnvironment env s) envId)
    \<and> (\<forall>envId. logsNewestFirst (deleteEnvironment i s) envId)
    \<and> (\<forall>envId. logsNewestFirst (addApiKey key s) envId)
    \<and> (\<forall>envId. logsNewestFirst (updateApiKey key s) envId)
    \<and> (\<forall>envId. logsNewestFirst (deleteApiKey i s) envId)
    \<and> (\<forall>envId. logsNewestFirst (addWebhook webhook s) envId)
    \<and> (\<forall>envId. logsNewestFirst (updateWebhook webhook s) envId)
    \<and> (\<forall>envId. logsNewestFirst (deleteWebhook i s) envId)
    \<and> (\<forall>envId. logsNewestFirst (refreshLogs i cd sd s) envId)
    \<and> ((\<forall>old \<in> set (logs s). log_environmentId old = log_environmentId entry
            \<longrightarrow> log_timestamp old \<le> log_timestamp entry)
         \<longrightarrow> (\<forall>envId. logsNewestFirst (addLog entry s) envId))
    \<and> (\<forall>envId. logsNewestFirst (initialStore ks hs countDraw seeds) envId)"
proof -
  have inv: "logsNewestFirst s envId" for envId using assms by simp
  have read: "\<forall>envId fl fs st tm n. newestFirst (filteredLogs s envId fl fs st tm n)"
    by (simp add: filteredLogs_newestFirst inv)
  have same: "logs s' = logs s \<Longrightarrow> \<forall>envId. logsNewestFirst s' envId" for s'
    by (simp add: logsNewestFirst_cong inv)
  have 1: "\<forall>envId. logsNewestFirst (setSelectedEnvironmentId sel s) envId"
    by (rule same) (simp add: setSelectedEnvironmentId_def)
  have 2: "\<forall>envId. logsNewestFirst (addEnvironment env s) envId"
    by (rule same) (simp add: addEnvironment_def)
  have 3: "\<forall>envId. logsNewestFirst (updateEnvironment env s) envId"
    by (rule same) (simp add: updateEnvironment_def)
  have 4: "\<forall>envId. logsNewestFirst (deleteEnvironment i s) envId"
    by (simp add: deleteEnvironment_newestFirst inv)
  have 5: "\<forall>envId. logsNewestFirst (addApiKey key s) envId"
    by (rule same) (simp add: addApiKey_def)
  have 6: "\<forall>envId. logsNewestFirst (updateApiKey key s) envId"
    by (rule same) (simp add: updateApiKey_def)
  have 7: "\<forall>envId. logsNewestFirst (deleteApiKey i s) envId"
    by (rule same) (simp add: deleteApiKey_def)
  have 8: "\<forall>envId. logsNewestFirst (addWebhook webhook s) envId"
    by (rule same) (simp add: addWebhook_def)
  have 9: "\<forall>envId. logsNewestFirst (updateWebhook webhook s) envId"
    by (rule same) (simp add: updateWebhook_def)
  have 10: "\<forall>envId. logsNewestFirst (deleteWebhook i s) envId"
    by (rule same) (simp add: deleteWebhook_def)
  have 11: "\<forall>envId. logsNewestFirst (refreshLogs i cd sd s) envId"
    by (simp add: refreshLogs_newestFirst inv)
  have 12: "(\<forall>old \<in> set (logs s). log_environmentId old = log_environmentId entry
            \<longrightarrow> log_timestamp old \<le> log_timestamp entry)
         \<longrightarrow> (\<forall>envId. logsNewestFirst (addLog entry s) envId)"
    using addLog_newestFirst [OF inv] by blast
  have 13: "\<forall>envId. logsNewestFirst (initialStore ks hs countDraw seeds) envId"
    by (simp add: initialStore_newestFirst)
  from read 1 2 3 4 5 6 7 8 9 10 11 12 13 show ?thesis by blast
qed

lemma exampleStore_newestFirst: "logsNewestFirst exampleStore envId"
  by (simp add: logsNewestFirst_def newestFirst_def exampleStore_def exampleLog_def)

theorem newestFirst_invariant_witness:
  "(\<forall>envId. logsNewestFirst exampleStore envId)
   \<and> map log_id (filteredLogs exampleStore ''env-1'' ''ALL'' ''ALL'' [] (\<lambda>term entry. True) 50)
       = [''l1'', ''l3'']
   \<and> newestFirst (filteredLogs exampleStore ''env-1'' ''ALL'' ''ALL'' [] (\<lambda>term entry. True) 50)
   \<and> logsNewestFirst (addLog (exampleLog ''l4'' ''env-1'' 3500) exampleStore) ''env-1''"
proof -
  have h: "\<forall>envId. logsNewestFirst exampleStore envId"
    by (simp add: exampleStore_newestFirst)
  have g: "\<forall>old \<in> set (logs exampleStore).
      log_environmentId old = log_environmentId (exampleLog ''l4'' ''env-1'' 3500)
      \<longrightarrow> log_timestamp old \<le> log_timestamp (exampleLog ''l4'' ''env-1'' 3500)"
    by (simp add: exampleStore_def exampleLog_def)
  have r: "map log_id (filteredLogs exampleStore ''env-1'' ''ALL'' ''ALL'' [] (\<lambda>term entry. True) 50)
       = [''l1'', ''l3'']"
    by (simp add: filteredLogs_def exampleStore_def exampleLog_def)
  note inv = newestFirst_invariant [OF h, where entry = "exampleLog ''l4'' ''env-1'' 3500"]
  from inv have "\<forall>envId fl fs st tm n. newestFirst (filteredLogs exampleStore envId fl fs st tm n)"
    by (rule conjunct1)
  then have a: "newestFirst (filteredLogs exampleStore ''env-1'' ''ALL'' ''ALL'' [] (\<lambda>term entry. True) 50)"
    by (elim allE)
  from inv g have "\<forall>envId. logsNewestFirst (addLog (exampleLog ''l4'' ''env-1'' 3500) exampleStore) envId"
    by simp
  then have b: "logsNewestFirst (addLog (exampleLog ''l4'' ''env-1'' 3500) exampleStore) ''env-1''"
    by (rule spec)
  from h r a b show ?thesis by simp
qed

text \<open>
  The claim as stated fails: after the store at mount, a call of \<open>addLog\<close> with an entry
  and a second call with an entry of the same environment that is a day older leave the
  older entry in front of the newer one in the list read for the environment.
\<close>

theorem addLog_breaks_newestFirst:
  "\<not> (\<forall>s envId fl fs st tm n. reachable s \<longrightarrow> newestFirst (filteredLogs s envId fl fs st tm n))"
proof
  let ?s0 = "initialStore [] [] (\<lambda>i. Abs_rnd 0) (\<lambda>i. exampleSeed)"
  let ?newer = "exampleLog ''l4'' ''env-1'' 1722500000000"
  let ?older = "exampleLog ''l5'' ''env-1'' 1722400000000"
  let ?s = "addLog ?older (addLog ?newer ?s0)"
  assume a: "\<forall>s envId fl fs st tm n. reachable s \<longrightarrow> newestFirst (filteredLogs s envId fl fs st tm n)"
  have "reachable ?s"
    by (intro r_addLog r_initial)
  with a have "newestFirst (filteredLogs ?s ''env-1'' ''ALL'' ''ALL'' [] (\<lambda>term entry. True) 50)"
    by blast
  then show False
    by (simp add: filteredLogs_def addLog_def exampleLog_def newestFirst_def)
qed

section \<open>The counts of an environment\<close>

lemma agreeingStore_agrees: "keyCountsAgree agreeingStore" "webhookCountsAgree agreeingStore"
  by (simp_all add: keyCountsAgree_def webhookCountsAgree_def agreeingStore_def
      MOCK_ENVIRONMENTS_def mkEnv_def exampleKey_def exampleHook_def)

lemma key_ops_drift:
  "\<not> keyCountsAgree (addApiKey (exampleKey ''k7'' ''env-4'' Key_Active [''read:data'']) agreeingStore)"
  "\<not> keyCountsAgree (updateApiKey (exampleKey ''k5'' ''env-1'' Key_Active [''read:data'']) agreeingStore)"
  "\<not> keyCountsAgree (deleteApiKey ''k5'' agreeingStore)"
  by (simp_all add: keyCountsAgree_def agreeingStore_def addApiKey_def updateApiKey_def
      deleteApiKey_def MOCK_ENVIRONMENTS_def mkEnv_def exampleKey_def)

lemma webhook_ops_drift:
  "\<not> webhookCountsAgree (addWebhook (exampleHook ''h4'' ''env-4'') agreeingStore)"
  "\<not> webhookCountsAgree (updateWebhook (exampleHook ''h3'' ''env-1'') agreeingStore)"
  "\<not> webhookCountsAgree (deleteWebhook ''h3'' agreeingStore)"
  by (simp_all add: webhookCountsAgree_def agreeingStore_def addWebhook_def updateWebhook_def
      deleteWebhook_def MOCK_ENVIRONMENTS_def mkEnv_def exampleHook_def)

text \<open>
  C10. Each of \<open>addApiKey\<close>, \<open>updateApiKey\<close>, \<open>deleteApiKey\<close>, \<open>addWebhook\<close>,
  \<open>updateWebhook\<close> and \<open>deleteWebhook\<close> leaves the environments, and with them their
  \<open>apiKeyCount\<close> and \<open>webhookCount\<close>, the logs, the selection and the other of the two
  collections as they were. So the counts can part from the collections: for each of the
  six there is a store whose counts agree before the call and do not agree after it.
\<close>

theorem key_webhook_ops_frame:
  "(environments (addApiKey key s) = environments s \<and> webhooks (addApiKey key s) = webhooks s
      \<and> logs (addApiKey key s) = logs s
      \<and> selectedEnvironmentId (addApiKey key s) = selectedEnvironmentId s)
   \<and> (environments (updateApiKey key s) = environments s \<and> webhooks (updateApiKey key s) = webhooks s
      \<and> logs (updateApiKey key s) = logs s
      \<and> selectedEnvironmentId (updateApiKey key s) = selectedEnvironmentId s)
   \<and> (environments (deleteApiKey i s) = environments s \<and> webhooks (deleteApiKey i s) = webhooks s
      \<and> logs (deleteApiKey i s) = logs s
      \<and> selectedEnvironmentId (deleteApiKey i s) = selectedEnvironmentId s)
   \<and> (environments (addWebhook webhook s) = environments s \<and> apiKeys (addWebhook webhook s) = apiKeys s
      \<and> logs (addWebhook webhook s) = logs s
      \<and> selectedEnvironmentId (addWebhook webhook s) = selectedEnvironmentId s)
   \<and> (environments (updateWebhook webhook s) = environments s
      \<and> apiKeys (updateWebhook webhook s) = apiKeys s
      \<and> logs (updateWebhook webhook s) = logs s
      \<and> selectedEnvironmentId (updateWebhook webhook s) = selectedEnvironmentId s)
   \<and> (environments (deleteWebhook i s) = environments s \<and> apiKeys (deleteWebhook i s) = apiKeys s
      \<and> logs (deleteWebhook i s) = logs s
      \<and> selectedEnvironmentId (deleteWebhook i s) = selectedEnvironmentId s)
   \<and> (\<exists>s0 k. keyCountsAgree s0 \<and> \<not> keyCountsAgree (addApiKey k s0))
   \<and> (\<exists>s0 k. keyCountsAgree s0 \<and> \<not> keyCountsAgree (updateApiKey k s0))
   \<and> (\<exists>s0 j. keyCountsAgree s0 \<and> \<not> keyCountsAgree (deleteApiKey j s0))
   \<and> (\<exists>s0 w. webhookCountsAgree s0 \<and> \<not> webhookCountsAgree (addWebhook w s0))
   \<and> (\<exists>s0 w. webhookCountsAgree s0 \<and> \<not> webhookCountsAgree (updateWebhook w s0))
   \<and> (\<exists>s0 j. webhookCountsAgree s0 \<and> \<not> webhookCountsAgree (deleteWebhook j s0))"
proof -
  have frame:
    "environments (addApiKey key s) = environments s \<and> webhooks (addApiKey key s) = webhooks s
      \<and> logs (addApiKey key s) = logs s
      \<and> selectedEnvironmentId (addApiKey key s) = selectedEnvironmentId s"
    "environments (updateApiKey key s) = environments s \<and> webhooks (updateApiKey key s) = webhooks s
      \<and> logs (updateApiKey key s) = logs s
      \<and> selectedEnvironmentId (updateApiKey key s) = selectedEnvironmentId s"
    "environments (deleteApiKey i s) = environments s \<and> webhooks (deleteApiKey i s) = webhooks s
      \<and> logs (deleteApiKey i s) = logs s
      \<and> selectedEnvironmentId (deleteApiKey i s) = selectedEnvironmentId s"
    "environments (addWebhook webhook s) = environments s \<and> apiKeys (addWebhook webhook s) = apiKeys s
      \<and> logs (addWebhook webhook s) = logs s
      \<and> selectedEnvironmentId (addWebhook webhook s) = selectedEnvironmentId s"
    "environments (updateWebhook webhook s) = environments s
      \<and> apiKeys (updateWebhook webhook s) = apiKeys s
      \<and> logs (updateWebhook webhook s) = logs s
      \<and> selectedEnvironmentId (updateWebhook webhook s) = selectedEnvironmentId s"
    "environments (deleteWebhook i s) = environments s \<and> apiKeys (deleteWebhook i s) = apiKeys s
      \<and> logs (deleteWebhook i s) = logs s
      \<and> selectedEnvironmentId (deleteWebhook i s) = selectedEnvironmentId s"
    by (simp_all add: addApiKey_def updateApiKey_def deleteApiKey_def addWebhook_def
        updateWebhook_def deleteWebhook_def)
  have drift:
    "\<exists>s0 k. keyCountsAgree s0 \<and> \<not> keyCountsAgree (addApiKey k s0)"
    "\<exists>s0 k. keyCountsAgree s0 \<and> \<not> keyCountsAgree (updateApiKey k s0)"
    "\<exists>s0 j. keyCountsAgree s0 \<and> \<not> keyCountsAgree (deleteApiKey j s0)"
    "\<exists>s0 w. webhookCountsAgree s0 \<and> \<not> webhookCountsAgree (addWebhook w s0)"
    "\<exists>s0 w. webhookCountsAgree s0 \<and> \<not> webhookCountsAgree (updateWebhook w s0)"
    "\<exists>s0 j. webhookCountsAgree s0 \<and> \<not> webhookCountsAgree (deleteWebhook j s0)"
    using agreeingStore_agrees key_ops_drift webhook_ops_drift by blast+
  from frame drift show ?thesis by blast
qed

end
